theory Spec2Isabelle
  imports Complex_Main
begin

section \<open>Cells, series and data frames\<close>

text \<open>
  The scripts \<^verbatim>\<open>Script/01_clean_and_merge.py\<close> and \<^verbatim>\<open>Script/02_load_database.py\<close>
  work on pandas data frames. A cell of a frame is a missing value (\<open>NaN\<close>, or \<open>NaT\<close> in a
  datetime column), a number, a string or a timestamp (year, month, day). A series is a
  list of cells; a frame is an ordered list of distinct column names and a list of rows,
  a row giving the cell of every column (\<open>NaN\<close> for a name that is not a column).
\<close>

datatype cell = NaN | NaT | Num rat | Str string | Timestamp int int int

datatype error = KeyError "string list" | ValueError | TypeError | AttributeError

type_synonym series = "cell list"

type_synonym row = "string \<Rightarrow> cell"

record dataframe =
  columns :: "string list"
  rows :: "row list"

definition bindE :: "error + 'a \<Rightarrow> ('a \<Rightarrow> error + 'b) \<Rightarrow> error + 'b" where
  "bindE m f = (case m of Inl e \<Rightarrow> Inl e | Inr x \<Rightarrow> f x)"

text \<open>\<^verbatim>\<open>pd.isna\<close> and \<^verbatim>\<open>pd.notna\<close>.\<close>

definition isna :: "cell \<Rightarrow> bool" where
  "isna c = (c = NaN \<or> c = NaT)"

definition notna :: "cell \<Rightarrow> bool" where
  "notna c = (\<not> isna c)"

text \<open>\<^verbatim>\<open>len(df)\<close>.\<close>

definition len :: "dataframe \<Rightarrow> nat" where
  "len df = length (rows df)"

text \<open>\<^verbatim>\<open>df[c]\<close>: the series of a column; a name that is not a column raises KeyError.\<close>

definition getitem :: "dataframe \<Rightarrow> string \<Rightarrow> error + series" where
  "getitem df c =
     (if c \<in> set (columns df) then Inr (map (\<lambda>r. r c) (rows df)) else Inl (KeyError [c]))"

text \<open>
  \<^verbatim>\<open>df[c] = values\<close>: an existing column is overwritten in place, a new one is appended
  as the last column; a series of another length than the frame raises ValueError.
\<close>

definition insert_column :: "string list \<Rightarrow> string \<Rightarrow> string list" where
  "insert_column cols c = (if c \<in> set cols then cols else cols @ [c])"

definition setitem :: "dataframe \<Rightarrow> string \<Rightarrow> series \<Rightarrow> error + dataframe" where
  "setitem df c vs =
     (if length vs = length (rows df)
      then Inr \<lparr>columns = insert_column (columns df) c,
                rows = map2 (\<lambda>r v. r(c := v)) (rows df) vs\<rparr>
      else Inl ValueError)"

text \<open>\<^verbatim>\<open>df[c] = scalar\<close>: the scalar is broadcast to every row.\<close>

definition setitem_scalar :: "dataframe \<Rightarrow> string \<Rightarrow> cell \<Rightarrow> dataframe" where
  "setitem_scalar df c v =
     \<lparr>columns = insert_column (columns df) c,
      rows = map (\<lambda>r. r(c := v)) (rows df)\<rparr>"

text \<open>\<^verbatim>\<open>df.loc[mask, c] = scalar\<close> for a boolean mask over the rows of the frame.\<close>

definition loc_setitem :: "dataframe \<Rightarrow> bool list \<Rightarrow> string \<Rightarrow> cell \<Rightarrow> error + dataframe" where
  "loc_setitem df msk c v =
     (if length msk = length (rows df)
      then Inr \<lparr>columns = insert_column (columns df) c,
                rows = map2 (\<lambda>r b. if b then r(c := v) else r) (rows df) msk\<rparr>
      else Inl ValueError)"

text \<open>The columns of a list that a frame does not have, in the order of the list.\<close>

definition missing :: "dataframe \<Rightarrow> string list \<Rightarrow> string list" where
  "missing df cols = filter (\<lambda>c. c \<notin> set (columns df)) cols"

text \<open>A row cut down to a list of columns.\<close>

definition restrict :: "string list \<Rightarrow> row \<Rightarrow> row" where
  "restrict cols r = (\<lambda>c. if c \<in> set cols then r c else NaN)"

text \<open>
  \<^verbatim>\<open>df[cols]\<close>: the frame of the listed columns, in the listed order; KeyError names the
  listed columns that the frame does not have.
\<close>

definition select :: "dataframe \<Rightarrow> string list \<Rightarrow> error + dataframe" where
  "select df cols =
     (if missing df cols = []
      then Inr \<lparr>columns = cols, rows = map (restrict cols) (rows df)\<rparr>
      else Inl (KeyError (missing df cols)))"

text \<open>\<^verbatim>\<open>df.drop(columns=cols)\<close>: with the default \<^verbatim>\<open>errors='raise'\<close>, a missing label raises KeyError.\<close>

definition drop_columns :: "dataframe \<Rightarrow> string list \<Rightarrow> error + dataframe" where
  "drop_columns df cols =
     (if missing df cols = []
      then (let keep = filter (\<lambda>c. c \<notin> set cols) (columns df)
            in Inr \<lparr>columns = keep, rows = map (restrict keep) (rows df)\<rparr>)
      else Inl (KeyError (missing df cols)))"

text \<open>
  \<^verbatim>\<open>pd.concat([a, b], ignore_index=True)\<close>: the rows of \<open>a\<close>, then the rows of \<open>b\<close>, over
  the columns of \<open>a\<close> followed by the columns only \<open>b\<close> has; a cell of a column that a frame
  does not have is \<open>NaN\<close>.
\<close>

definition concat_frames :: "dataframe \<Rightarrow> dataframe \<Rightarrow> dataframe" where
  "concat_frames a b =
     \<lparr>columns = columns a @ filter (\<lambda>c. c \<notin> set (columns a)) (columns b),
      rows = map (restrict (columns a)) (rows a) @ map (restrict (columns b)) (rows b)\<rparr>"

text \<open>\<^verbatim>\<open>series.map(dict)\<close>: a value that is not a key of the dictionary becomes \<open>NaN\<close>.\<close>

definition dict_get :: "(cell \<rightharpoonup> cell) \<Rightarrow> cell \<Rightarrow> cell" where
  "dict_get d v = (case d v of Some x \<Rightarrow> x | None \<Rightarrow> NaN)"

definition series_map :: "(cell \<rightharpoonup> cell) \<Rightarrow> series \<Rightarrow> series" where
  "series_map d s = map (dict_get d) s"

text \<open>\<^verbatim>\<open>series.fillna(other)\<close> with a series on the same index.\<close>

definition fill :: "cell \<Rightarrow> cell \<Rightarrow> cell" where
  "fill v w = (if isna v then w else v)"

definition fillna :: "series \<Rightarrow> series \<Rightarrow> series" where
  "fillna s other = map2 fill s other"

text \<open>\<^verbatim>\<open>series.apply(f)\<close>: the first cell on which \<open>f\<close> raises ends the run.\<close>

fun apply_series :: "(cell \<Rightarrow> error + cell) \<Rightarrow> series \<Rightarrow> error + series" where
  "apply_series f [] = Inr []"
| "apply_series f (v # vs) =
     (case f v of
        Inl e \<Rightarrow> Inl e
      | Inr w \<Rightarrow> (case apply_series f vs of Inl e \<Rightarrow> Inl e | Inr ws \<Rightarrow> Inr (w # ws)))"

text \<open>
  \<^verbatim>\<open>sorted(series.unique())\<close>, as the log statements call it. \<^verbatim>\<open>unique\<close> keeps the first
  occurrence of every value. \<^verbatim>\<open>sorted\<close> compares the values with \<^verbatim>\<open><\<close>: strings with
  strings, numbers with numbers (\<open>NaN\<close> is a float), timestamps with timestamps; any other
  pair raises TypeError. The sorted list only goes into the text of the log, so the model
  keeps whether the call raises.
\<close>

datatype kind = Text | Number | Datetime

definition kind_of :: "cell \<Rightarrow> kind" where
  "kind_of v =
     (case v of Str s \<Rightarrow> Text | Num q \<Rightarrow> Number | NaN \<Rightarrow> Number
      | NaT \<Rightarrow> Datetime | Timestamp y m d \<Rightarrow> Datetime)"

definition unique :: "series \<Rightarrow> series" where
  "unique s = rev (remdups (rev s))"

definition comparable :: "series \<Rightarrow> bool" where
  "comparable s = (case s of [] \<Rightarrow> True | v # ws \<Rightarrow> list_all (\<lambda>w. kind_of w = kind_of v) ws)"

definition py_sorted :: "series \<Rightarrow> error + unit" where
  "py_sorted s = (if comparable s then Inr () else Inl TypeError)"

section \<open>Strings and integers\<close>

text \<open>
  \<^verbatim>\<open>int(s)\<close> for a string: surrounding whitespace is stripped, one sign is allowed, and the
  digits may be separated by single underscores; anything else raises ValueError
  (\<open>None\<close> here).
\<close>

definition digit_of :: "char \<Rightarrow> nat option" where
  "digit_of = map_of
     [(CHR ''0'', 0), (CHR ''1'', 1), (CHR ''2'', 2), (CHR ''3'', 3), (CHR ''4'', 4),
      (CHR ''5'', 5), (CHR ''6'', 6), (CHR ''7'', 7), (CHR ''8'', 8), (CHR ''9'', 9)]"

definition py_isspace :: "char \<Rightarrow> bool" where
  "py_isspace c = (c \<in> set [CHR '' '', CHR 0x09, CHR 0x0A, CHR 0x0B, CHR 0x0C, CHR 0x0D,
                             CHR 0x1C, CHR 0x1D, CHR 0x1E, CHR 0x1F])"

definition strip :: "string \<Rightarrow> string" where
  "strip s = rev (dropWhile py_isspace (rev (dropWhile py_isspace s)))"

fun digits_acc :: "string \<Rightarrow> nat \<Rightarrow> bool \<Rightarrow> nat option" where
  "digits_acc [] acc prev = (if prev then Some acc else None)"
| "digits_acc (c # cs) acc prev =
     (case digit_of c of
        Some d \<Rightarrow> digits_acc cs (10 * acc + d) True
      | None \<Rightarrow> (if c = CHR ''_'' \<and> prev then digits_acc cs acc False else None))"

definition py_int :: "string \<Rightarrow> int option" where
  "py_int s =
     (case strip s of
        [] \<Rightarrow> None
      | c # cs \<Rightarrow>
          (if c = CHR ''-'' then map_option (\<lambda>n. - int n) (digits_acc cs 0 False)
           else if c = CHR ''+'' then map_option int (digits_acc cs 0 False)
           else map_option int (digits_acc (c # cs) 0 False)))"

text \<open>\<^verbatim>\<open>s.split(sep)[0]\<close>: the part of the string before the first separator.\<close>

definition split_first :: "char \<Rightarrow> string \<Rightarrow> string" where
  "split_first sep s = takeWhile (\<lambda>c. c \<noteq> sep) s"

text \<open>\<^verbatim>\<open>int(x)\<close> for a cell: a number is truncated towards zero.\<close>

definition py_trunc :: "rat \<Rightarrow> int" where
  "py_trunc q = (if 0 \<le> q then \<lfloor>q\<rfloor> else \<lceil>q\<rceil>)"

definition cell_int :: "cell \<Rightarrow> error + int" where
  "cell_int x =
     (case x of
        Num q \<Rightarrow> Inr (py_trunc q)
      | Str s \<Rightarrow> (case py_int s of None \<Rightarrow> Inl ValueError | Some i \<Rightarrow> Inr i)
      | NaN \<Rightarrow> Inl ValueError
      | NaT \<Rightarrow> Inl TypeError
      | Timestamp y m d \<Rightarrow> Inl TypeError)"

text \<open>The two-digit fields of \<^verbatim>\<open>strftime('%H:%M')\<close> and the month names of \<^verbatim>\<open>strftime('%B')\<close>.\<close>

definition digit_char :: "nat \<Rightarrow> char" where
  "digit_char d = ''0123456789'' ! d"

definition pad2 :: "nat \<Rightarrow> string" where
  "pad2 n = [digit_char (n div 10), digit_char (n mod 10)]"

definition strftime_HM :: "nat \<Rightarrow> nat \<Rightarrow> string" where
  "strftime_HM h m = pad2 h @ '':'' @ pad2 m"

definition month_names :: "string list" where
  "month_names = [''January'', ''February'', ''March'', ''April'', ''May'', ''June'', ''July'',
                  ''August'', ''September'', ''October'', ''November'', ''December'']"

definition strftime_B :: "int \<Rightarrow> string" where
  "strftime_B m = (if 1 \<le> m \<and> m \<le> 12 then month_names ! nat (m - 1) else [])"

section \<open>Library parsers\<close>

text \<open>
  The parsers of pandas are not part of the repository; the cleaning script is modelled over
  any parsers. \<open>to_datetime\<close> is \<^verbatim>\<open>pd.to_datetime(x, errors='coerce')\<close> on one cell (year,
  month, day, or \<open>None\<close> for \<^verbatim>\<open>NaT\<close>), \<open>to_time\<close> is
  \<^verbatim>\<open>pd.to_datetime(str(x), format='%H:%M:%S', errors='coerce')\<close> (hour, minute, second),
  and \<open>to_numeric\<close> is \<^verbatim>\<open>pd.to_numeric(x, errors='coerce')\<close>.
\<close>

record parsers =
  to_datetime :: "cell \<Rightarrow> (int \<times> int \<times> int) option"
  to_time :: "cell \<Rightarrow> (nat \<times> nat \<times> nat) option"
  to_numeric :: "cell \<Rightarrow> rat option"

text \<open>A parser of times is valid when it only returns times of the clock.\<close>

definition valid_times :: "parsers \<Rightarrow> bool" where
  "valid_times P = (\<forall>x h m s. to_time P x = Some (h, m, s) \<longrightarrow> h < 24 \<and> m < 60 \<and> s < 60)"

definition timestamp_of :: "parsers \<Rightarrow> cell \<Rightarrow> cell" where
  "timestamp_of P v = (case to_datetime P v of None \<Rightarrow> NaT | Some (y, m, d) \<Rightarrow> Timestamp y m d)"

definition pd_to_datetime :: "parsers \<Rightarrow> series \<Rightarrow> series" where
  "pd_to_datetime P s = map (timestamp_of P) s"

definition number_of :: "parsers \<Rightarrow> cell \<Rightarrow> cell" where
  "number_of P v = (case to_numeric P v of None \<Rightarrow> NaN | Some q \<Rightarrow> Num q)"

definition pd_to_numeric :: "parsers \<Rightarrow> series \<Rightarrow> series" where
  "pd_to_numeric P s = map (number_of P) s"

text \<open>
  \<^verbatim>\<open>pd.to_datetime(s.astype(str), format='%H:%M:%S', errors='coerce').dt.strftime('%H:%M')\<close>:
  a time that does not parse gives \<open>NaN\<close>.
\<close>

definition hhmm_of :: "parsers \<Rightarrow> cell \<Rightarrow> cell" where
  "hhmm_of P v = (case to_time P v of None \<Rightarrow> NaN | Some (h, m, sec) \<Rightarrow> Str (strftime_HM h m))"

definition to_hhmm :: "parsers \<Rightarrow> series \<Rightarrow> series" where
  "to_hhmm P s = map (hhmm_of P) s"

text \<open>\<^verbatim>\<open>.astype('Int64')\<close> on a numeric series: a value with a fraction cannot be cast.\<close>

definition integral :: "cell \<Rightarrow> bool" where
  "integral v = (case v of Num q \<Rightarrow> of_int \<lfloor>q\<rfloor> = q | NaN \<Rightarrow> True | _ \<Rightarrow> False)"

definition astype_Int64 :: "series \<Rightarrow> error + series" where
  "astype_Int64 s = (if list_all integral s then Inr s else Inl TypeError)"

text \<open>
  The \<^verbatim>\<open>.dt\<close> accessor exists on a datetime series only (AttributeError otherwise); on
  \<^verbatim>\<open>NaT\<close> the fields \<^verbatim>\<open>year\<close>, \<^verbatim>\<open>month\<close> and \<^verbatim>\<open>strftime\<close> give \<open>NaN\<close>.
\<close>

definition is_datetime :: "cell \<Rightarrow> bool" where
  "is_datetime v = (case v of NaT \<Rightarrow> True | Timestamp y m d \<Rightarrow> True | _ \<Rightarrow> False)"

definition datetimelike :: "series \<Rightarrow> bool" where
  "datetimelike s = list_all is_datetime s"

definition year_of :: "cell \<Rightarrow> cell" where
  "year_of v = (case v of Timestamp y m d \<Rightarrow> Num (of_int y) | _ \<Rightarrow> NaN)"

definition month_of :: "cell \<Rightarrow> cell" where
  "month_of v = (case v of Timestamp y m d \<Rightarrow> Num (of_int m) | _ \<Rightarrow> NaN)"

definition month_name_of :: "cell \<Rightarrow> cell" where
  "month_name_of v = (case v of Timestamp y m d \<Rightarrow> Str (strftime_B m) | _ \<Rightarrow> NaN)"

definition dt_year :: "series \<Rightarrow> error + series" where
  "dt_year s = (if datetimelike s then Inr (map year_of s) else Inl AttributeError)"

definition dt_month :: "series \<Rightarrow> error + series" where
  "dt_month s = (if datetimelike s then Inr (map month_of s) else Inl AttributeError)"

definition dt_strftime_B :: "series \<Rightarrow> error + series" where
  "dt_strftime_B s = (if datetimelike s then Inr (map month_name_of s) else Inl AttributeError)"

section \<open>Script 01: cleaning and merging\<close>

subsection \<open>Step 3a and 4b: dates\<close>

text \<open>
  ABC: the dates are parsed, the rows of year 1970 are set to \<^verbatim>\<open>NaT\<close>, and their number
  \<open>n_bad\<close> goes to the log.
\<close>

definition abc_fix_dates :: "parsers \<Rightarrow> dataframe \<Rightarrow> error + dataframe \<times> nat" where
  "abc_fix_dates P abc =
     bindE (getitem abc ''order_purchase_date'') (\<lambda>raw.
     bindE (setitem abc ''order_purchase_date'' (pd_to_datetime P raw)) (\<lambda>abc1.
     bindE (getitem abc1 ''order_purchase_date'') (\<lambda>parsed.
     bindE (dt_year parsed) (\<lambda>years.
       let bad_date_mask = map (\<lambda>y. y = Num 1970) years in
       bindE (loc_setitem abc1 bad_date_mask ''order_purchase_date'' NaT) (\<lambda>abc2.
       Inr (abc2, length (filter id bad_date_mask)))))))"

text \<open>
  XYZ: the dates are parsed, and the number \<open>bad_xyz\<close> of dates before 2015 goes to the
  log; no date is changed.
\<close>

definition year_before :: "rat \<Rightarrow> cell \<Rightarrow> bool" where
  "year_before bound y = (case y of Num q \<Rightarrow> q < bound | _ \<Rightarrow> False)"

definition xyz_parse_dates :: "parsers \<Rightarrow> dataframe \<Rightarrow> error + dataframe \<times> nat" where
  "xyz_parse_dates P xyz =
     bindE (getitem xyz ''order_purchase_date'') (\<lambda>raw.
     bindE (setitem xyz ''order_purchase_date'' (pd_to_datetime P raw)) (\<lambda>xyz1.
     bindE (getitem xyz1 ''order_purchase_date'') (\<lambda>parsed.
     bindE (dt_year parsed) (\<lambda>years.
       Inr (xyz1, length (filter (year_before 2015) years))))))"

subsection \<open>Step 3b: the order number of ABC\<close>

definition abc_fix_order_number :: "parsers \<Rightarrow> dataframe \<Rightarrow> error + dataframe" where
  "abc_fix_order_number P abc =
     bindE (getitem abc ''order_number'') (\<lambda>raw.
     bindE (astype_Int64 (pd_to_numeric P raw)) (\<lambda>nums.
     setitem abc ''order_number'' nums))"

subsection \<open>Step 3c and 4c: the vocabulary of item categories\<close>

definition category_map_abc :: "cell \<rightharpoonup> cell" where
  "category_map_abc = map_of
     [(Str ''salad'', Str ''Salads''),
      (Str ''Pasta'', Str ''Pasta''),
      (Str ''Pizza'', Str ''Pizza''),
      (Str ''Sandwich'', Str ''Sandwiches''),
      (Str ''Appetizers'', Str ''Appetizers''),
      (Str ''Beverages'', Str ''Beverages'')]"

definition category_map_xyz :: "cell \<rightharpoonup> cell" where
  "category_map_xyz = map_of
     [(Str ''Pizza'', Str ''Pizza''),
      (Str ''Dessert'', Str ''Dessert''),
      (Str ''Appetizers'', Str ''Appetizers''),
      (Str ''Salads'', Str ''Salads''),
      (Str ''Pasta'', Str ''Pasta''),
      (Str ''Sandwiches'', Str ''Sandwiches''),
      (Str ''Beverage'', Str ''Beverages'')]"

text \<open>
  The log statements of lines 96, 158 and 224 format
  \<^verbatim>\<open>sorted(df['item_category'].unique())\<close>.
\<close>

definition log_categories :: "dataframe \<Rightarrow> error + unit" where
  "log_categories df =
     bindE (getitem df ''item_category'') (\<lambda>cats. py_sorted (unique cats))"

text \<open>
  \<^verbatim>\<open>df['item_category'] = df['item_category'].map(category_map).fillna(df['item_category'])\<close>,
  followed by the log statement of the step.
\<close>

definition standardise_category :: "(cell \<rightharpoonup> cell) \<Rightarrow> dataframe \<Rightarrow> error + dataframe" where
  "standardise_category category_map df =
     bindE (getitem df ''item_category'') (\<lambda>raw.
     bindE (getitem df ''item_category'') (\<lambda>other.
     bindE (setitem df ''item_category'' (fillna (series_map category_map raw) other)) (\<lambda>df'.
     bindE (log_categories df') (\<lambda>logged.
     Inr df'))))"

text \<open>The canonical vocabulary of the specification.\<close>

definition canonical :: "cell list" where
  "canonical = [Str ''Appetizers'', Str ''Beverages'', Str ''Dessert'', Str ''Pasta'',
                Str ''Pizza'', Str ''Salads'', Str ''Sandwiches'']"

subsection \<open>Step 3d to 3g and 4d, 4e: time and derived columns\<close>

text \<open>The script repeats these statements for XYZ word for word.\<close>

definition standardise_time :: "parsers \<Rightarrow> dataframe \<Rightarrow> error + dataframe" where
  "standardise_time P df =
     bindE (getitem df ''order_purchase_time'') (\<lambda>raw.
     setitem df ''order_purchase_time'' (to_hhmm P raw))"

text \<open>\<^verbatim>\<open>lambda t: 'AM' if pd.notna(t) and int(t.split(':')[0]) < 12 else 'PM'\<close>\<close>

definition time_of_day :: "cell \<Rightarrow> error + cell" where
  "time_of_day t =
     (if notna t
      then (case t of
              Str s \<Rightarrow>
                (case py_int (split_first CHR '':'' s) of
                   None \<Rightarrow> Inl ValueError
                 | Some h \<Rightarrow> Inr (if h < 12 then Str ''AM'' else Str ''PM''))
            | _ \<Rightarrow> Inl AttributeError)
      else Inr (Str ''PM''))"

definition add_time_of_day :: "dataframe \<Rightarrow> error + dataframe" where
  "add_time_of_day df =
     bindE (getitem df ''order_purchase_time'') (\<lambda>times.
     bindE (apply_series time_of_day times) (\<lambda>flags.
     setitem df ''time_of_day'' flags))"

definition get_season :: "cell \<Rightarrow> error + cell" where
  "get_season month =
     (if isna month then Inr NaN
      else bindE (cell_int month) (\<lambda>m.
        if m \<in> set [12, 1, 2] then Inr (Str ''Winter'')
        else if m \<in> set [3, 4, 5] then Inr (Str ''Spring'')
        else if m \<in> set [6, 7, 8] then Inr (Str ''Summer'')
        else Inr (Str ''Fall'')))"

definition add_calendar :: "dataframe \<Rightarrow> error + dataframe" where
  "add_calendar df =
     bindE (getitem df ''order_purchase_date'') (\<lambda>d1.
     bindE (dt_month d1) (\<lambda>months.
     bindE (setitem df ''order_month'' months) (\<lambda>df1.
     bindE (getitem df1 ''order_purchase_date'') (\<lambda>d2.
     bindE (dt_strftime_B d2) (\<lambda>names.
     bindE (setitem df1 ''order_month_name'' names) (\<lambda>df2.
     bindE (getitem df2 ''order_purchase_date'') (\<lambda>d3.
     bindE (dt_year d3) (\<lambda>years.
     bindE (setitem df2 ''order_year'' years) (\<lambda>df3.
     bindE (getitem df3 ''order_month'') (\<lambda>ms.
     bindE (apply_series get_season ms) (\<lambda>seasons.
     setitem df3 ''season'' seasons)))))))))))"

text \<open>The dictionaries \<^verbatim>\<open>{'Y': 'Yes', 'N': 'No'}\<close> and \<^verbatim>\<open>{1: 'Yes', 0: 'No'}\<close>.\<close>

definition yes_no_letters :: "cell \<rightharpoonup> cell" where
  "yes_no_letters = map_of [(Str ''Y'', Str ''Yes''), (Str ''N'', Str ''No'')]"

definition yes_no_bits :: "cell \<rightharpoonup> cell" where
  "yes_no_bits = map_of [(Num 1, Str ''Yes''), (Num 0, Str ''No'')]"

definition add_labels :: "dataframe \<Rightarrow> error + dataframe" where
  "add_labels df =
     bindE (getitem df ''coupon_y_n'') (\<lambda>coupon.
     bindE (setitem df ''coupon_used'' (series_map yes_no_letters coupon)) (\<lambda>df1.
     bindE (getitem df1 ''order_alcohol_purchased'') (\<lambda>alcohol.
     bindE (setitem df1 ''alcohol_purchased'' (series_map yes_no_bits alcohol)) (\<lambda>df2.
     bindE (getitem df2 ''customer_with_children'') (\<lambda>children.
     bindE (setitem df2 ''has_children'' (series_map yes_no_bits children)) (\<lambda>df3.
     bindE (getitem df3 ''gender_customer_payee'') (\<lambda>payee.
     setitem df3 ''gender'' payee)))))))"

subsection \<open>Step 4a: the cost column of XYZ\<close>

definition xyz_drop_cost :: "dataframe \<Rightarrow> error + dataframe" where
  "xyz_drop_cost xyz = drop_columns xyz [''item_product_cost'']"

subsection \<open>Sections 3 and 4 of the script\<close>

definition clean_abc :: "parsers \<Rightarrow> dataframe \<Rightarrow> error + dataframe \<times> nat" where
  "clean_abc P abc0 =
     bindE (abc_fix_dates P abc0) (\<lambda>(abc1, n_bad).
     bindE (abc_fix_order_number P abc1) (\<lambda>abc2.
     bindE (standardise_category category_map_abc abc2) (\<lambda>abc3.
     bindE (standardise_time P abc3) (\<lambda>abc4.
     bindE (add_time_of_day abc4) (\<lambda>abc5.
     bindE (add_calendar abc5) (\<lambda>abc6.
     bindE (add_labels abc6) (\<lambda>abc7.
     Inr (abc7, n_bad))))))))"

definition clean_xyz :: "parsers \<Rightarrow> dataframe \<Rightarrow> error + dataframe \<times> nat" where
  "clean_xyz P xyz0 =
     bindE (xyz_drop_cost xyz0) (\<lambda>xyz1.
     bindE (xyz_parse_dates P xyz1) (\<lambda>(xyz2, bad_xyz).
     bindE (standardise_category category_map_xyz xyz2) (\<lambda>xyz3.
     bindE (standardise_time P xyz3) (\<lambda>xyz4.
     bindE (add_time_of_day xyz4) (\<lambda>xyz5.
     bindE (add_calendar xyz5) (\<lambda>xyz6.
     bindE (add_labels xyz6) (\<lambda>xyz7.
     Inr (xyz7, bad_xyz))))))))"

subsection \<open>Sections 5 and 6: the shared columns and the merge\<close>

definition shared_cols :: "string list" where
  "shared_cols =
     [''chain'', ''customer_id'', ''order_number'', ''restaurant_id'',
      ''restaurant_city'', ''restaurant_state'', ''restaurant_zip_code'',
      ''order_purchase_date'', ''order_purchase_time'', ''time_of_day'',
      ''order_month'', ''order_month_name'', ''order_year'', ''season'',
      ''order_purchase_method'', ''coupon_used'', ''alcohol_purchased'',
      ''gender'', ''has_children'',
      ''item_number'', ''item_description'', ''item_code'', ''item_category'',
      ''quantity'', ''menu_price'', ''item_total_cost'', ''Profit'',
      ''order_total_cost'']"

record outputs =
  abc_clean :: dataframe
  xyz_clean :: dataframe
  merged :: dataframe

definition unify :: "dataframe \<Rightarrow> dataframe \<Rightarrow> error + outputs" where
  "unify abc xyz =
     bindE (select abc shared_cols) (\<lambda>a.
     bindE (select xyz shared_cols) (\<lambda>b.
     Inr \<lparr>abc_clean = a, xyz_clean = b, merged = concat_frames a b\<rparr>))"

text \<open>
  The whole script: the outputs and the two counts of the log. Of the final validation
  (section 7) the category log of line 224 can raise; it runs before the outputs are saved.
\<close>

definition pipeline :: "parsers \<Rightarrow> dataframe \<Rightarrow> dataframe \<Rightarrow> error + outputs \<times> nat \<times> nat" where
  "pipeline P abc_raw xyz_raw =
     (let abc = setitem_scalar abc_raw ''chain'' (Str ''ABC'');
          xyz = setitem_scalar xyz_raw ''chain'' (Str ''XYZ'')
      in bindE (clean_abc P abc) (\<lambda>(abc', n_bad).
         bindE (clean_xyz P xyz) (\<lambda>(xyz', bad_xyz).
         bindE (unify abc' xyz') (\<lambda>out.
         bindE (log_categories (merged out)) (\<lambda>logged.
         Inr (out, n_bad, bad_xyz))))))"

section \<open>Script 02: the dimension tables\<close>

text \<open>
  \<^verbatim>\<open>df.drop_duplicates(subset=cols)\<close> keeps the first row of every key; missing values
  count as equal to each other.
\<close>

fun keep_first :: "(row \<Rightarrow> cell list) \<Rightarrow> cell list list \<Rightarrow> row list \<Rightarrow> row list" where
  "keep_first key seen [] = []"
| "keep_first key seen (r # rs) =
     (if key r \<in> set seen then keep_first key seen rs
      else r # keep_first key (key r # seen) rs)"

definition key_of :: "string list \<Rightarrow> row \<Rightarrow> cell list" where
  "key_of ks r = map r ks"

definition drop_duplicates :: "dataframe \<Rightarrow> string list \<Rightarrow> error + dataframe" where
  "drop_duplicates df ks =
     (if missing df ks = []
      then Inr \<lparr>columns = columns df, rows = keep_first (key_of ks) [] (rows df)\<rparr>
      else Inl (KeyError (missing df ks)))"

text \<open>\<^verbatim>\<open>df.rename(columns={old: new})\<close>; a label that is not a column is ignored.\<close>

definition rename_column :: "dataframe \<Rightarrow> string \<Rightarrow> string \<Rightarrow> dataframe" where
  "rename_column df old new =
     (if old \<in> set (columns df)
      then \<lparr>columns = map (\<lambda>c. if c = old then new else c) (columns df),
            rows = map (\<lambda>r c. if c = new then r old else if c = old then NaN else r c) (rows df)\<rparr>
      else df)"

definition restaurants :: "dataframe \<Rightarrow> error + dataframe" where
  "restaurants df =
     bindE (select df [''restaurant_id'', ''restaurant_city'', ''restaurant_state'',
                       ''restaurant_zip_code'', ''chain'']) (\<lambda>d.
     bindE (drop_duplicates d [''restaurant_id'']) (\<lambda>u.
     Inr (rename_column u ''restaurant_zip_code'' ''restaurant_zip'')))"

definition products :: "dataframe \<Rightarrow> error + dataframe" where
  "products df =
     bindE (select df [''item_number'', ''item_description'', ''item_code'',
                       ''item_category'', ''menu_price'', ''chain'']) (\<lambda>d.
     drop_duplicates d [''item_number'', ''chain''])"

definition customers :: "dataframe \<Rightarrow> error + dataframe" where
  "customers df =
     bindE (select df [''customer_id'', ''gender'', ''has_children'', ''chain'']) (\<lambda>d.
     drop_duplicates d [''customer_id''])"

section \<open>The scripts row by row\<close>

text \<open>
  Every statement of the cleaning script computes a column from columns of the same row.
  The row functions below say what a successful run does to one row; the lemmas further
  down prove that the column statements agree with them.
\<close>

definition normalize_vocabulary :: "(cell \<rightharpoonup> cell) \<Rightarrow> cell \<Rightarrow> cell" where
  "normalize_vocabulary m v = fill (dict_get m v) v"

definition parsed_year :: "parsers \<Rightarrow> cell \<Rightarrow> int option" where
  "parsed_year P v = map_option fst (to_datetime P v)"

definition parsed_before :: "parsers \<Rightarrow> int \<Rightarrow> cell \<Rightarrow> bool" where
  "parsed_before P bound v = (case parsed_year P v of None \<Rightarrow> False | Some y \<Rightarrow> y < bound)"

definition abc_date :: "parsers \<Rightarrow> cell \<Rightarrow> cell" where
  "abc_date P v = (if year_of (timestamp_of P v) = Num 1970 then NaT else timestamp_of P v)"

definition abc_date_row :: "parsers \<Rightarrow> row \<Rightarrow> row" where
  "abc_date_row P r = r(''order_purchase_date'' := abc_date P (r ''order_purchase_date''))"

definition xyz_date_row :: "parsers \<Rightarrow> row \<Rightarrow> row" where
  "xyz_date_row P r = r(''order_purchase_date'' := timestamp_of P (r ''order_purchase_date''))"

definition order_number_row :: "parsers \<Rightarrow> row \<Rightarrow> row" where
  "order_number_row P r = r(''order_number'' := number_of P (r ''order_number''))"

definition category_row :: "(cell \<rightharpoonup> cell) \<Rightarrow> row \<Rightarrow> row" where
  "category_row m r = r(''item_category'' := normalize_vocabulary m (r ''item_category''))"

definition time_row :: "parsers \<Rightarrow> row \<Rightarrow> row" where
  "time_row P r = r(''order_purchase_time'' := hhmm_of P (r ''order_purchase_time''))"

definition flag_row :: "row \<Rightarrow> row" where
  "flag_row r = r(''time_of_day'' := projr (time_of_day (r ''order_purchase_time'')))"

definition calendar_row :: "row \<Rightarrow> row" where
  "calendar_row r =
     r(''order_month'' := month_of (r ''order_purchase_date''),
       ''order_month_name'' := month_name_of (r ''order_purchase_date''),
       ''order_year'' := year_of (r ''order_purchase_date''),
       ''season'' := projr (get_season (month_of (r ''order_purchase_date''))))"

definition labels_row :: "row \<Rightarrow> row" where
  "labels_row r =
     r(''coupon_used'' := dict_get yes_no_letters (r ''coupon_y_n''),
       ''alcohol_purchased'' := dict_get yes_no_bits (r ''order_alcohol_purchased''),
       ''has_children'' := dict_get yes_no_bits (r ''customer_with_children''),
       ''gender'' := r ''gender_customer_payee'')"

definition abc_row :: "parsers \<Rightarrow> row \<Rightarrow> row" where
  "abc_row P r =
     labels_row (calendar_row (flag_row (time_row P (category_row category_map_abc
       (order_number_row P (abc_date_row P r))))))"

definition xyz_row :: "parsers \<Rightarrow> row \<Rightarrow> row" where
  "xyz_row P r =
     labels_row (calendar_row (flag_row (time_row P (category_row category_map_xyz
       (xyz_date_row P r)))))"

definition derived_columns :: "string list \<Rightarrow> string list" where
  "derived_columns cols =
     foldl insert_column cols
       [''time_of_day'', ''order_month'', ''order_month_name'', ''order_year'', ''season'',
        ''coupon_used'', ''alcohol_purchased'', ''has_children'', ''gender'']"

text \<open>The columns that sections 3 and 4 of the script read.\<close>

definition abc_needs :: "string list" where
  "abc_needs = [''order_purchase_date'', ''order_number'', ''item_category'',
     ''order_purchase_time'', ''coupon_y_n'', ''order_alcohol_purchased'',
     ''customer_with_children'', ''gender_customer_payee'']"

definition xyz_needs :: "string list" where
  "xyz_needs = [''item_product_cost'', ''order_purchase_date'', ''item_category'',
     ''order_purchase_time'', ''coupon_y_n'', ''order_alcohol_purchased'',
     ''customer_with_children'', ''gender_customer_payee'']"

definition kept :: "dataframe \<Rightarrow> string list" where
  "kept df = filter (\<lambda>c. c \<notin> set [''item_product_cost'']) (columns df)"

definition xyz_count :: "parsers \<Rightarrow> dataframe \<Rightarrow> nat" where
  "xyz_count P df =
     length (filter (\<lambda>r. year_before 2015 (year_of (timestamp_of P (r ''order_purchase_date''))))
       (rows df))"

text \<open>A row whose calendar columns are missing whenever its date is.\<close>

definition consistent :: "row \<Rightarrow> bool" where
  "consistent r =
     (isna (r ''order_purchase_date'') \<longrightarrow>
        isna (r ''order_month'') \<and> isna (r ''order_month_name'') \<and>
        isna (r ''order_year'') \<and> isna (r ''season''))"

text \<open>The hour that the flag of step 3e reads from a cell of the time column.\<close>

definition hour_of :: "cell \<Rightarrow> int option" where
  "hour_of t = (case t of Str s \<Rightarrow> py_int (split_first CHR '':'' s) | _ \<Rightarrow> None)"

definition morning :: "cell \<Rightarrow> bool" where
  "morning t = (case hour_of t of None \<Rightarrow> False | Some h \<Rightarrow> 0 \<le> h \<and> h < 12)"

section \<open>Sample inputs\<close>

text \<open>
  Parsers that agree with pandas on the cells of the samples, and two small extracts with
  the columns of the raw files.
\<close>

definition sample_parsers :: parsers where
  "sample_parsers =
     \<lparr>to_datetime = (\<lambda>v. if v = Str ''1970-01-01'' then Some (1970, 1, 1)
                          else if v = Str ''2019-03-15'' then Some (2019, 3, 15)
                          else if v = Str ''2014-12-31'' then Some (2014, 12, 31) else None),
      to_time = (\<lambda>v. if v = Str ''09:05:00'' then Some (9, 5, 0)
                      else if v = Str ''13:30:00'' then Some (13, 30, 0) else None),
      to_numeric = (\<lambda>v. case v of Num q \<Rightarrow> Some q | _ \<Rightarrow> None)\<rparr>"

definition row_of :: "(string \<times> cell) list \<Rightarrow> row" where
  "row_of kvs = (\<lambda>c. case map_of kvs c of Some v \<Rightarrow> v | None \<Rightarrow> NaN)"

definition raw_cols :: "string list" where
  "raw_cols = [''customer_id'', ''order_number'', ''restaurant_id'', ''restaurant_city'',
     ''restaurant_state'', ''restaurant_zip_code'', ''order_purchase_date'',
     ''order_purchase_time'', ''order_purchase_method'', ''coupon_y_n'',
     ''order_alcohol_purchased'', ''customer_with_children'', ''gender_customer_payee'',
     ''item_number'', ''item_description'', ''item_code'', ''item_category'', ''quantity'',
     ''menu_price'', ''item_total_cost'', ''Profit'', ''order_total_cost'']"

definition abc_row1 :: row where
  "abc_row1 = row_of
     [(''order_purchase_date'', Str ''1970-01-01''), (''order_purchase_time'', Str ''09:05:00''),
      (''item_category'', Str ''salad''), (''coupon_y_n'', Str ''Y''),
      (''order_alcohol_purchased'', Num 1), (''customer_with_children'', Num 2),
      (''order_number'', Num 1001), (''restaurant_id'', Num 7),
      (''customer_id'', Str ''C1''), (''item_number'', Num 5)]"

definition abc_row2 :: row where
  "abc_row2 = row_of
     [(''order_purchase_date'', Str ''2019-03-15''), (''order_purchase_time'', Str ''late''),
      (''item_category'', Str ''Soup''), (''coupon_y_n'', Str ''n''),
      (''order_alcohol_purchased'', Num 0), (''customer_with_children'', Num 1),
      (''order_number'', Num 1002), (''restaurant_id'', Num 7),
      (''customer_id'', Str ''C2''), (''item_number'', Num 5)]"

definition xyz_row1 :: row where
  "xyz_row1 = row_of
     [(''order_purchase_date'', Str ''1970-01-01''), (''order_purchase_time'', Str ''13:30:00''),
      (''item_category'', Str ''Beverage''), (''coupon_y_n'', Str ''N''),
      (''order_alcohol_purchased'', Num 0), (''customer_with_children'', Num 0),
      (''order_number'', Num 2001), (''restaurant_id'', Num 9),
      (''customer_id'', Str ''C1''), (''item_number'', Num 5),
      (''item_product_cost'', Num 3)]"

definition sample_blank :: dataframe where
  "sample_blank =
     \<lparr>columns = [''item_category'', ''quantity''],
      rows = [row_of [(''item_category'', Str ''salad''), (''quantity'', Num 1)],
              row_of [(''quantity'', Num 2)]]\<rparr>"

definition sample_abc :: dataframe where
  "sample_abc = \<lparr>columns = raw_cols, rows = [abc_row1, abc_row2]\<rparr>"

definition sample_xyz :: dataframe where
  "sample_xyz = \<lparr>columns = raw_cols @ [''item_product_cost''], rows = [xyz_row1]\<rparr>"

text \<open>The series of a column of a result, and the columns of a result.\<close>

definition result_column :: "string \<Rightarrow> error + dataframe \<times> nat \<Rightarrow> error + series" where
  "result_column c res = bindE res (\<lambda>(df, n). getitem df c)"

definition result_columns :: "error + dataframe \<Rightarrow> error + string list" where
  "result_columns res = bindE res (\<lambda>df. Inr (columns df))"

definition sample_derived :: dataframe where
  "sample_derived =
     \<lparr>columns = [''order_purchase_time'', ''order_purchase_date''],
      rows = [row_of [(''order_purchase_time'', Str ''09:05''),
                      (''order_purchase_date'', Timestamp 2019 3 15)],
              row_of [(''order_purchase_date'', NaT)]]\<rparr>"

definition sample_merged :: dataframe where
  "sample_merged =
     \<lparr>columns = [''restaurant_id'', ''restaurant_city'', ''restaurant_state'',
                 ''restaurant_zip_code'', ''chain'', ''item_number'', ''item_description'',
                 ''item_code'', ''item_category'', ''menu_price'', ''customer_id'', ''gender'',
                 ''has_children''],
      rows = [row_of [(''restaurant_id'', Num 7), (''chain'', Str ''ABC''), (''item_number'', Num 5),
                      (''customer_id'', Str ''C1'')],
              row_of [(''restaurant_id'', Num 7), (''chain'', Str ''ABC''), (''item_number'', Num 5),
                      (''customer_id'', Str ''C2'')],
              row_of [(''restaurant_id'', Num 9), (''chain'', Str ''XYZ''), (''item_number'', Num 5),
                      (''customer_id'', Str ''C1'')]]\<rparr>"

definition sample_a :: dataframe where
  "sample_a = \<lparr>columns = shared_cols,
                 rows = [row_of [(''chain'', Str ''ABC''), (''order_number'', Num 1)],
                         row_of [(''chain'', Str ''ABC''), (''order_number'', Num 2)]]\<rparr>"

definition sample_b :: dataframe where
  "sample_b = \<lparr>columns = shared_cols @ [''item_product_cost''],
                 rows = [row_of [(''chain'', Str ''XYZ''), (''order_number'', Num 3)]]\<rparr>"

definition sample_c :: dataframe where
  "sample_c = \<lparr>columns = butlast shared_cols,
                 rows = [row_of [(''chain'', Str ''XYZ''), (''order_number'', Num 3)]]\<rparr>"

section \<open>Lemmas about frames and steps\<close>

lemma bindE_Inr: "bindE m f = Inr y \<longleftrightarrow> (\<exists>x. m = Inr x \<and> f x = Inr y)"
  by (cases m) (simp_all add: bindE_def)

lemma bindE_Inr_simp [simp]: "bindE (Inr x) f = f x"
  by (simp add: bindE_def)

lemma bindE_Inl_simp [simp]: "bindE (Inl e) f = Inl e"
  by (simp add: bindE_def)

lemma getitem_Inr: "getitem df c = Inr s \<longleftrightarrow> c \<in> set (columns df) \<and> s = map (\<lambda>r. r c) (rows df)"
  by (auto simp: getitem_def)

lemma apply_series_Inr:
  "apply_series f (map g rs) = Inr ws \<longleftrightarrow>
     (\<forall>r\<in>set rs. \<exists>w. f (g r) = Inr w) \<and> ws = map (\<lambda>r. projr (f (g r))) rs"
proof (induction rs arbitrary: ws)
  case Nil
  show ?case by auto
next
  case (Cons r rs)
  show ?case
  proof (cases "f (g r)")
    case (Inl e)
    then show ?thesis by auto
  next
    case (Inr w)
    then show ?thesis
      using Cons.IH by (cases "apply_series f (map g rs)") auto
  qed
qed

lemma datetimelike_map: "datetimelike (map g rs) \<longleftrightarrow> (\<forall>r\<in>set rs. is_datetime (g r))"
  by (simp add: datetimelike_def list_all_iff)

lemma is_datetime_timestamp_of [simp]: "is_datetime (timestamp_of P v)"
  by (simp add: is_datetime_def timestamp_of_def split: option.splits)

lemma insert_column_mem [simp]: "c \<in> set cols \<Longrightarrow> insert_column cols c = cols"
  by (simp add: insert_column_def)

lemma set_insert_column [simp]: "set (insert_column cols c) = insert c (set cols)"
  by (auto simp: insert_column_def)

lemma setitem_Inr:
  "setitem df c vs = Inr df' \<longleftrightarrow>
     length vs = length (rows df) \<and>
     df' = \<lparr>columns = insert_column (columns df) c, rows = map2 (\<lambda>r v. r(c := v)) (rows df) vs\<rparr>"
  by (auto simp: setitem_def)

lemma loc_setitem_Inr:
  "loc_setitem df msk c v = Inr df' \<longleftrightarrow>
     length msk = length (rows df) \<and>
     df' = \<lparr>columns = insert_column (columns df) c,
            rows = map2 (\<lambda>r b. if b then r(c := v) else r) (rows df) msk\<rparr>"
  by (auto simp: loc_setitem_def)

lemma dt_year_Inr: "dt_year s = Inr ys \<longleftrightarrow> datetimelike s \<and> ys = map year_of s"
  by (auto simp: dt_year_def)

lemma dt_month_Inr: "dt_month s = Inr ys \<longleftrightarrow> datetimelike s \<and> ys = map month_of s"
  by (auto simp: dt_month_def)

lemma dt_strftime_B_Inr: "dt_strftime_B s = Inr ys \<longleftrightarrow> datetimelike s \<and> ys = map month_name_of s"
  by (auto simp: dt_strftime_B_def)

lemma astype_Int64_Inr: "astype_Int64 s = Inr ys \<longleftrightarrow> list_all integral s \<and> ys = s"
  by (auto simp: astype_Int64_def)

lemmas frame_simps = bindE_Inr getitem_Inr setitem_Inr loc_setitem_Inr dt_year_Inr dt_month_Inr
  dt_strftime_B_Inr astype_Int64_Inr apply_series_Inr
  zip_map1 zip_map2 zip_same_conv_map o_def

lemma abc_fix_dates_Inr:
  "abc_fix_dates P df = Inr (df', n) \<longleftrightarrow>
     ''order_purchase_date'' \<in> set (columns df) \<and>
     df' = \<lparr>columns = columns df, rows = map (abc_date_row P) (rows df)\<rparr> \<and>
     n = length (filter (\<lambda>r. year_of (timestamp_of P (r ''order_purchase_date'')) = Num 1970) (rows df))"
  by (auto simp: abc_fix_dates_def pd_to_datetime_def frame_simps abc_date_def abc_date_row_def
      Let_def filter_map datetimelike_map)

lemma xyz_parse_dates_Inr:
  "xyz_parse_dates P df = Inr (df', n) \<longleftrightarrow>
     ''order_purchase_date'' \<in> set (columns df) \<and>
     df' = \<lparr>columns = columns df, rows = map (xyz_date_row P) (rows df)\<rparr> \<and>
     n = length (filter (\<lambda>r. year_before 2015 (year_of (timestamp_of P (r ''order_purchase_date'')))) (rows df))"
  by (auto simp: xyz_parse_dates_def pd_to_datetime_def frame_simps xyz_date_row_def filter_map
      datetimelike_map)

lemma abc_fix_order_number_Inr:
  "abc_fix_order_number P df = Inr df' \<longleftrightarrow>
     ''order_number'' \<in> set (columns df) \<and>
     (\<forall>r\<in>set (rows df). integral (number_of P (r ''order_number''))) \<and>
     df' = \<lparr>columns = columns df, rows = map (order_number_row P) (rows df)\<rparr>"
  by (auto simp: abc_fix_order_number_def pd_to_numeric_def frame_simps order_number_row_def
      list_all_iff)

lemma set_unique [simp]: "set (unique s) = set s"
  by (simp add: unique_def)

lemma comparable_iff: "comparable s \<longleftrightarrow> (\<forall>v\<in>set s. \<forall>w\<in>set s. kind_of v = kind_of w)"
  by (cases s) (auto simp: comparable_def list_all_iff)

lemma sortable_iff:
  "comparable (unique s) \<longleftrightarrow> (\<forall>v\<in>set s. \<forall>w\<in>set s. kind_of v = kind_of w)"
  by (simp add: comparable_iff)

lemma log_categories_Inr:
  "log_categories df = Inr u \<longleftrightarrow>
     ''item_category'' \<in> set (columns df) \<and>
     comparable (unique (map (\<lambda>r. r ''item_category'') (rows df)))"
  by (auto simp: log_categories_def bindE_Inr getitem_Inr py_sorted_def)

lemma standardise_category_Inr:
  "standardise_category m df = Inr df' \<longleftrightarrow>
     ''item_category'' \<in> set (columns df) \<and>
     comparable (unique (map (\<lambda>r. normalize_vocabulary m (r ''item_category'')) (rows df))) \<and>
     df' = \<lparr>columns = columns df, rows = map (category_row m) (rows df)\<rparr>"
  by (auto simp: standardise_category_def series_map_def fillna_def frame_simps category_row_def
      normalize_vocabulary_def log_categories_Inr)

lemma standardise_time_Inr:
  "standardise_time P df = Inr df' \<longleftrightarrow>
     ''order_purchase_time'' \<in> set (columns df) \<and>
     df' = \<lparr>columns = columns df, rows = map (time_row P) (rows df)\<rparr>"
  by (auto simp: standardise_time_def to_hhmm_def frame_simps time_row_def)

lemma add_time_of_day_Inr:
  "add_time_of_day df = Inr df' \<longleftrightarrow>
     ''order_purchase_time'' \<in> set (columns df) \<and>
     (\<forall>r\<in>set (rows df). \<exists>w. time_of_day (r ''order_purchase_time'') = Inr w) \<and>
     df' = \<lparr>columns = insert_column (columns df) ''time_of_day'', rows = map flag_row (rows df)\<rparr>"
  by (auto simp: add_time_of_day_def frame_simps flag_row_def)

lemma py_trunc_of_int [simp]: "py_trunc (of_int m) = m"
  by (simp add: py_trunc_def)

lemma get_season_month_of: "\<exists>w. get_season (month_of v) = Inr w"
  by (cases v) (simp_all add: get_season_def month_of_def isna_def cell_int_def)

lemma add_calendar_Inr:
  "add_calendar df = Inr df' \<longleftrightarrow>
     ''order_purchase_date'' \<in> set (columns df) \<and>
     (\<forall>r\<in>set (rows df). is_datetime (r ''order_purchase_date'')) \<and>
     df' = \<lparr>columns = insert_column (insert_column (insert_column (insert_column (columns df)
                ''order_month'') ''order_month_name'') ''order_year'') ''season'',
            rows = map calendar_row (rows df)\<rparr>"
  by (auto simp: add_calendar_def frame_simps calendar_row_def datetimelike_map get_season_month_of)

lemma add_labels_Inr:
  "add_labels df = Inr df' \<longleftrightarrow>
     set [''coupon_y_n'', ''order_alcohol_purchased'', ''customer_with_children'',
          ''gender_customer_payee''] \<subseteq> set (columns df) \<and>
     df' = \<lparr>columns = insert_column (insert_column (insert_column (insert_column (columns df)
                ''coupon_used'') ''alcohol_purchased'') ''has_children'') ''gender'',
            rows = map labels_row (rows df)\<rparr>"
  by (auto simp: add_labels_def series_map_def frame_simps labels_row_def)

lemma digit_roundtrip: "d < 10 \<Longrightarrow> digit_of (digit_char d) = Some d"
proof -
  assume "d < 10"
  then have "d \<in> set [0..<10]" by simp
  then show ?thesis
    by (auto simp: upt_rec digit_of_def digit_char_def)
qed

lemma digit_char_plain:
  assumes "d < 10"
  shows "\<not> py_isspace (digit_char d)" and "digit_char d \<noteq> CHR '':''"
    and "digit_char d \<noteq> CHR ''-''" and "digit_char d \<noteq> CHR ''+''"
proof -
  from assms have "d \<in> set [0..<10]" by simp
  then have "\<not> py_isspace (digit_char d) \<and> digit_char d \<noteq> CHR '':''
      \<and> digit_char d \<noteq> CHR ''-'' \<and> digit_char d \<noteq> CHR ''+''"
    by (auto simp: upt_rec digit_char_def py_isspace_def)
  then show "\<not> py_isspace (digit_char d)" and "digit_char d \<noteq> CHR '':''"
    and "digit_char d \<noteq> CHR ''-''" and "digit_char d \<noteq> CHR ''+''"
    by simp_all
qed

lemma py_int_pad2: "n < 100 \<Longrightarrow> py_int (pad2 n) = Some (int n)"
proof -
  assume n: "n < 100"
  then have a: "n div 10 < 10" and b: "n mod 10 < 10" by simp_all
  show ?thesis
    using digit_roundtrip [OF a] digit_roundtrip [OF b] digit_char_plain [OF a] digit_char_plain [OF b]
    by (simp add: py_int_def strip_def pad2_def)
qed

lemma split_first_strftime: "h < 100 \<Longrightarrow> split_first CHR '':'' (strftime_HM h m) = pad2 h"
proof -
  assume n: "h < 100"
  then have a: "h div 10 < 10" and b: "h mod 10 < 10" by simp_all
  show ?thesis
    using digit_char_plain [OF a] digit_char_plain [OF b]
    by (simp add: split_first_def strftime_HM_def pad2_def)
qed

lemma time_of_day_strftime:
  "h < 24 \<Longrightarrow> time_of_day (Str (strftime_HM h m)) = Inr (if h < 12 then Str ''AM'' else Str ''PM'')"
  by (simp add: time_of_day_def notna_def isna_def split_first_strftime py_int_pad2)

lemma time_of_day_hhmm:
  assumes "valid_times P"
  shows "time_of_day (hhmm_of P v) =
     Inr (case to_time P v of None \<Rightarrow> Str ''PM''
          | Some (h, m, s) \<Rightarrow> if h < 12 then Str ''AM'' else Str ''PM'')"
proof (cases "to_time P v")
  case None
  then show ?thesis by (simp add: hhmm_of_def time_of_day_def notna_def isna_def)
next
  case (Some t)
  obtain h m s where t: "t = (h, m, s)" by (cases t)
  with Some assms have "h < 24" by (auto simp: valid_times_def)
  with Some t show ?thesis by (simp add: hhmm_of_def time_of_day_strftime)
qed

lemmas row_defs = abc_date_row_def xyz_date_row_def order_number_row_def category_row_def
  time_row_def flag_row_def calendar_row_def labels_row_def

lemma is_datetime_abc_date [simp]: "is_datetime (abc_date P v)"
  by (simp add: abc_date_def) (simp add: is_datetime_def)

lemma clean_abc_steps:
  assumes "clean_abc P df = Inr (df', n)"
  obtains d1 d2 d3 d4 d5 d6 where
    "abc_fix_dates P df = Inr (d1, n)" "abc_fix_order_number P d1 = Inr d2"
    "standardise_category category_map_abc d2 = Inr d3" "standardise_time P d3 = Inr d4"
    "add_time_of_day d4 = Inr d5" "add_calendar d5 = Inr d6" "add_labels d6 = Inr df'"
  using assms by (auto simp: clean_abc_def bindE_Inr)

lemma clean_abc_rows:
  assumes "clean_abc P df = Inr (df', n)"
  shows "df' = \<lparr>columns = derived_columns (columns df), rows = map (abc_row P) (rows df)\<rparr>"
    and "n = length (filter (\<lambda>r. year_of (timestamp_of P (r ''order_purchase_date'')) = Num 1970) (rows df))"
proof -
  from assms obtain d1 d2 d3 d4 d5 d6 where
    s1: "abc_fix_dates P df = Inr (d1, n)" and s2: "abc_fix_order_number P d1 = Inr d2" and
    s3: "standardise_category category_map_abc d2 = Inr d3" and s4: "standardise_time P d3 = Inr d4" and
    s5: "add_time_of_day d4 = Inr d5" and s6: "add_calendar d5 = Inr d6" and s7: "add_labels d6 = Inr df'"
    by (rule clean_abc_steps)
  from s1 have e1: "d1 = \<lparr>columns = columns df, rows = map (abc_date_row P) (rows df)\<rparr>"
    and n: "n = length (filter (\<lambda>r. year_of (timestamp_of P (r ''order_purchase_date'')) = Num 1970) (rows df))"
    by (simp_all add: abc_fix_dates_Inr)
  from s2 have e2: "d2 = \<lparr>columns = columns d1, rows = map (order_number_row P) (rows d1)\<rparr>"
    by (simp add: abc_fix_order_number_Inr)
  from s3 have e3: "d3 = \<lparr>columns = columns d2, rows = map (category_row category_map_abc) (rows d2)\<rparr>"
    by (simp add: standardise_category_Inr)
  from s4 have e4: "d4 = \<lparr>columns = columns d3, rows = map (time_row P) (rows d3)\<rparr>"
    by (simp add: standardise_time_Inr)
  from s5 have e5: "d5 = \<lparr>columns = insert_column (columns d4) ''time_of_day'', rows = map flag_row (rows d4)\<rparr>"
    by (simp add: add_time_of_day_Inr)
  from s6 have e6: "d6 = \<lparr>columns = insert_column (insert_column (insert_column (insert_column (columns d5)
                ''order_month'') ''order_month_name'') ''order_year'') ''season'',
            rows = map calendar_row (rows d5)\<rparr>"
    by (simp add: add_calendar_Inr)
  from s7 have e7: "df' = \<lparr>columns = insert_column (insert_column (insert_column (insert_column (columns d6)
                ''coupon_used'') ''alcohol_purchased'') ''has_children'') ''gender'',
            rows = map labels_row (rows d6)\<rparr>"
    by (simp add: add_labels_Inr)
  show "df' = \<lparr>columns = derived_columns (columns df), rows = map (abc_row P) (rows df)\<rparr>"
    unfolding e7 e6 e5 e4 e3 e2 e1 by (simp add: derived_columns_def abc_row_def o_def)
  show "n = length (filter (\<lambda>r. year_of (timestamp_of P (r ''order_purchase_date'')) = Num 1970) (rows df))"
    by (rule n)
qed

lemma clean_abc_total:
  assumes v: "valid_times P" and c: "set abc_needs \<subseteq> set (columns df)"
    and i: "\<forall>r\<in>set (rows df). integral (number_of P (r ''order_number''))"
    and s: "comparable (unique (map (\<lambda>r. normalize_vocabulary category_map_abc (r ''item_category''))
              (rows df)))"
  shows "clean_abc P df =
     Inr (\<lparr>columns = derived_columns (columns df), rows = map (abc_row P) (rows df)\<rparr>,
          length (filter (\<lambda>r. year_of (timestamp_of P (r ''order_purchase_date'')) = Num 1970) (rows df)))"
proof -
  let ?n = "length (filter (\<lambda>r. year_of (timestamp_of P (r ''order_purchase_date'')) = Num 1970) (rows df))"
  define d1 where "d1 = \<lparr>columns = columns df, rows = map (abc_date_row P) (rows df)\<rparr>"
  define d2 where "d2 = \<lparr>columns = columns d1, rows = map (order_number_row P) (rows d1)\<rparr>"
  define d3 where "d3 = \<lparr>columns = columns d2, rows = map (category_row category_map_abc) (rows d2)\<rparr>"
  define d4 where "d4 = \<lparr>columns = columns d3, rows = map (time_row P) (rows d3)\<rparr>"
  define d5 where "d5 = \<lparr>columns = insert_column (columns d4) ''time_of_day'', rows = map flag_row (rows d4)\<rparr>"
  define d6 where "d6 = \<lparr>columns = insert_column (insert_column (insert_column (insert_column (columns d5)
                ''order_month'') ''order_month_name'') ''order_year'') ''season'',
            rows = map calendar_row (rows d5)\<rparr>"
  define d7 where "d7 = \<lparr>columns = insert_column (insert_column (insert_column (insert_column (columns d6)
                ''coupon_used'') ''alcohol_purchased'') ''has_children'') ''gender'',
            rows = map labels_row (rows d6)\<rparr>"
  from c have s1: "abc_fix_dates P df = Inr (d1, ?n)"
    by (simp add: abc_fix_dates_Inr d1_def abc_needs_def)
  from c i have s2: "abc_fix_order_number P d1 = Inr d2"
    by (simp add: abc_fix_order_number_Inr d2_def d1_def abc_needs_def abc_date_row_def)
  have "map (\<lambda>r. normalize_vocabulary category_map_abc (r ''item_category'')) (rows d2) =
      map (\<lambda>r. normalize_vocabulary category_map_abc (r ''item_category'')) (rows df)"
    by (simp add: d2_def d1_def o_def order_number_row_def abc_date_row_def)
  with c s have s3: "standardise_category category_map_abc d2 = Inr d3"
    by (simp add: standardise_category_Inr d3_def) (simp add: d2_def d1_def abc_needs_def)
  from c have s4: "standardise_time P d3 = Inr d4"
    by (simp add: standardise_time_Inr d4_def d3_def d2_def d1_def abc_needs_def)
  from c v have s5: "add_time_of_day d4 = Inr d5"
    by (simp add: add_time_of_day_Inr d5_def d4_def d3_def d2_def d1_def abc_needs_def time_row_def
        time_of_day_hhmm)
  from c have s6: "add_calendar d5 = Inr d6"
    by (simp add: add_calendar_Inr d6_def d5_def d4_def d3_def d2_def d1_def abc_needs_def row_defs)
  from c have s7: "add_labels d6 = Inr d7"
    by (simp add: add_labels_Inr d7_def d6_def d5_def d4_def d3_def d2_def d1_def abc_needs_def)
  have e: "d7 = \<lparr>columns = derived_columns (columns df), rows = map (abc_row P) (rows df)\<rparr>"
    by (simp add: d7_def d6_def d5_def d4_def d3_def d2_def d1_def derived_columns_def abc_row_def o_def)
  have "clean_abc P df = Inr (d7, ?n)"
    unfolding clean_abc_def by (simp add: s1 s2 s3 s4 s5 s6 s7)
  then show ?thesis unfolding e .
qed

lemma missing_Nil: "missing df cols = [] \<longleftrightarrow> set cols \<subseteq> set (columns df)"
  by (auto simp: missing_def filter_empty_conv)

lemma xyz_drop_cost_Inr:
  "xyz_drop_cost df = Inr df' \<longleftrightarrow>
     ''item_product_cost'' \<in> set (columns df) \<and>
     df' = \<lparr>columns = kept df, rows = map (restrict (kept df)) (rows df)\<rparr>"
  by (auto simp: xyz_drop_cost_def drop_columns_def missing_Nil Let_def kept_def)

lemma set_kept: "set (kept df) = set (columns df) - {''item_product_cost''}"
  by (auto simp: kept_def)

lemma restrict_kept_date:
  "''order_purchase_date'' \<in> set (columns df) \<Longrightarrow>
     restrict (kept df) r ''order_purchase_date'' = r ''order_purchase_date''"
  by (simp add: restrict_def set_kept)

lemma clean_xyz_steps:
  assumes "clean_xyz P df = Inr (df', n)"
  obtains d1 d2 d3 d4 d5 d6 where
    "xyz_drop_cost df = Inr d1" "xyz_parse_dates P d1 = Inr (d2, n)"
    "standardise_category category_map_xyz d2 = Inr d3" "standardise_time P d3 = Inr d4"
    "add_time_of_day d4 = Inr d5" "add_calendar d5 = Inr d6" "add_labels d6 = Inr df'"
  using assms by (auto simp: clean_xyz_def bindE_Inr)

lemma clean_xyz_rows:
  assumes "clean_xyz P df = Inr (df', n)"
  shows "df' = \<lparr>columns = derived_columns (kept df),
                rows = map (xyz_row P) (map (restrict (kept df)) (rows df))\<rparr>"
    and "n = xyz_count P df"
    and "''item_product_cost'' \<in> set (columns df)"
    and "''order_purchase_date'' \<in> set (columns df)"
    and "set xyz_needs \<subseteq> set (columns df)"
proof -
  from assms obtain d1 d2 d3 d4 d5 d6 where
    s1: "xyz_drop_cost df = Inr d1" and s2: "xyz_parse_dates P d1 = Inr (d2, n)" and
    s3: "standardise_category category_map_xyz d2 = Inr d3" and s4: "standardise_time P d3 = Inr d4" and
    s5: "add_time_of_day d4 = Inr d5" and s6: "add_calendar d5 = Inr d6" and s7: "add_labels d6 = Inr df'"
    by (rule clean_xyz_steps)
  from s1 have e1: "d1 = \<lparr>columns = kept df, rows = map (restrict (kept df)) (rows df)\<rparr>"
    and c1: "''item_product_cost'' \<in> set (columns df)"
    by (simp_all add: xyz_drop_cost_Inr)
  from s2 have e2: "d2 = \<lparr>columns = columns d1, rows = map (xyz_date_row P) (rows d1)\<rparr>"
    and n: "n = xyz_count P d1" and c2: "''order_purchase_date'' \<in> set (columns d1)"
    by (simp_all add: xyz_parse_dates_Inr xyz_count_def)
  from s3 have e3: "d3 = \<lparr>columns = columns d2, rows = map (category_row category_map_xyz) (rows d2)\<rparr>"
    by (simp add: standardise_category_Inr)
  from s4 have e4: "d4 = \<lparr>columns = columns d3, rows = map (time_row P) (rows d3)\<rparr>"
    by (simp add: standardise_time_Inr)
  from s5 have e5: "d5 = \<lparr>columns = insert_column (columns d4) ''time_of_day'', rows = map flag_row (rows d4)\<rparr>"
    by (simp add: add_time_of_day_Inr)
  from s6 have e6: "d6 = \<lparr>columns = insert_column (insert_column (insert_column (insert_column (columns d5)
                ''order_month'') ''order_month_name'') ''order_year'') ''season'',
            rows = map calendar_row (rows d5)\<rparr>"
    by (simp add: add_calendar_Inr)
  from s7 have e7: "df' = \<lparr>columns = insert_column (insert_column (insert_column (insert_column (columns d6)
                ''coupon_used'') ''alcohol_purchased'') ''has_children'') ''gender'',
            rows = map labels_row (rows d6)\<rparr>"
    by (simp add: add_labels_Inr)
  show "df' = \<lparr>columns = derived_columns (kept df), rows = map (xyz_row P) (map (restrict (kept df)) (rows df))\<rparr>"
    unfolding e7 e6 e5 e4 e3 e2 e1 by (simp add: derived_columns_def xyz_row_def o_def)
  from c2 have c3: "''order_purchase_date'' \<in> set (columns df)"
    by (simp add: e1 set_kept)
  show "''order_purchase_date'' \<in> set (columns df)" by (rule c3)
  have "xyz_count P d1 = xyz_count P df"
    using c3 by (simp add: xyz_count_def e1 filter_map o_def restrict_kept_date)
  with n show "n = xyz_count P df" by simp
  show "''item_product_cost'' \<in> set (columns df)" by (rule c1)
  from s3 have "''item_category'' \<in> set (columns d2)"
    by (simp add: standardise_category_Inr)
  moreover from s4 have "''order_purchase_time'' \<in> set (columns d3)"
    by (simp add: standardise_time_Inr)
  moreover from s7 have "set [''coupon_y_n'', ''order_alcohol_purchased'', ''customer_with_children'',
          ''gender_customer_payee''] \<subseteq> set (columns d6)"
    by (simp add: add_labels_Inr)
  ultimately show "set xyz_needs \<subseteq> set (columns df)"
    using c1 c3 unfolding e6 e5 e4 e3 e2 e1 by (simp add: xyz_needs_def set_kept)
qed

lemma clean_xyz_total:
  assumes v: "valid_times P" and c: "set xyz_needs \<subseteq> set (columns df)"
    and s: "comparable (unique (map (\<lambda>r. normalize_vocabulary category_map_xyz (r ''item_category''))
              (rows df)))"
  shows "clean_xyz P df =
     Inr (\<lparr>columns = derived_columns (kept df),
           rows = map (xyz_row P) (map (restrict (kept df)) (rows df))\<rparr>, xyz_count P df)"
proof -
  define d1 where "d1 = \<lparr>columns = kept df, rows = map (restrict (kept df)) (rows df)\<rparr>"
  define d2 where "d2 = \<lparr>columns = columns d1, rows = map (xyz_date_row P) (rows d1)\<rparr>"
  define d3 where "d3 = \<lparr>columns = columns d2, rows = map (category_row category_map_xyz) (rows d2)\<rparr>"
  define d4 where "d4 = \<lparr>columns = columns d3, rows = map (time_row P) (rows d3)\<rparr>"
  define d5 where "d5 = \<lparr>columns = insert_column (columns d4) ''time_of_day'', rows = map flag_row (rows d4)\<rparr>"
  define d6 where "d6 = \<lparr>columns = insert_column (insert_column (insert_column (insert_column (columns d5)
                ''order_month'') ''order_month_name'') ''order_year'') ''season'',
            rows = map calendar_row (rows d5)\<rparr>"
  define d7 where "d7 = \<lparr>columns = insert_column (insert_column (insert_column (insert_column (columns d6)
                ''coupon_used'') ''alcohol_purchased'') ''has_children'') ''gender'',
            rows = map labels_row (rows d6)\<rparr>"
  from c have k: "set (tl xyz_needs) \<subseteq> set (kept df)"
    by (auto simp: xyz_needs_def set_kept)
  from c have c3: "''order_purchase_date'' \<in> set (columns df)"
    by (simp add: xyz_needs_def)
  from c have s1: "xyz_drop_cost df = Inr d1"
    by (simp add: xyz_drop_cost_Inr d1_def xyz_needs_def)
  have "xyz_count P d1 = xyz_count P df"
    using c3 by (simp add: xyz_count_def d1_def filter_map o_def restrict_kept_date)
  with k have s2: "xyz_parse_dates P d1 = Inr (d2, xyz_count P df)"
    by (simp add: xyz_parse_dates_Inr d2_def d1_def xyz_needs_def xyz_count_def)
  from c have "\<And>r. restrict (kept df) r ''item_category'' = r ''item_category''"
    by (simp add: restrict_def set_kept xyz_needs_def)
  then have "map (\<lambda>r. normalize_vocabulary category_map_xyz (r ''item_category'')) (rows d2) =
      map (\<lambda>r. normalize_vocabulary category_map_xyz (r ''item_category'')) (rows df)"
    by (simp add: d2_def d1_def o_def xyz_date_row_def)
  with k s have s3: "standardise_category category_map_xyz d2 = Inr d3"
    by (simp add: standardise_category_Inr d3_def) (simp add: d2_def d1_def xyz_needs_def)
  from k have s4: "standardise_time P d3 = Inr d4"
    by (simp add: standardise_time_Inr d4_def d3_def d2_def d1_def xyz_needs_def)
  from k v have s5: "add_time_of_day d4 = Inr d5"
    by (simp add: add_time_of_day_Inr d5_def d4_def d3_def d2_def d1_def xyz_needs_def time_row_def
        time_of_day_hhmm)
  from k have s6: "add_calendar d5 = Inr d6"
    by (simp add: add_calendar_Inr d6_def d5_def d4_def d3_def d2_def d1_def xyz_needs_def row_defs)
  from k have s7: "add_labels d6 = Inr d7"
    by (simp add: add_labels_Inr d7_def d6_def d5_def d4_def d3_def d2_def d1_def xyz_needs_def)
  have e: "d7 = \<lparr>columns = derived_columns (kept df), rows = map (xyz_row P) (map (restrict (kept df)) (rows df))\<rparr>"
    by (simp add: d7_def d6_def d5_def d4_def d3_def d2_def d1_def derived_columns_def xyz_row_def o_def)
  have "clean_xyz P df = Inr (d7, xyz_count P df)"
    unfolding clean_xyz_def by (simp add: s1 s2 s3 s4 s5 s6 s7)
  then show ?thesis unfolding e .
qed

section \<open>Properties of the vocabulary and of the coded flags\<close>

lemma category_map_abc_notna: "category_map_abc v = Some c \<Longrightarrow> \<not> isna c"
  by (auto simp: category_map_abc_def isna_def split: if_splits)

lemma category_map_xyz_notna: "category_map_xyz v = Some c \<Longrightarrow> \<not> isna c"
  by (auto simp: category_map_xyz_def isna_def split: if_splits)

lemma normalize_vocabulary_cases:
  assumes "m = category_map_abc \<or> m = category_map_xyz"
  shows "normalize_vocabulary m v = (case m v of Some c \<Rightarrow> c | None \<Rightarrow> v)"
proof (cases "m v")
  case None
  then show ?thesis by (simp add: normalize_vocabulary_def dict_get_def fill_def isna_def)
next
  case (Some c)
  with assms have "\<not> isna c"
    using category_map_abc_notna category_map_xyz_notna by blast
  with Some show ?thesis by (simp add: normalize_vocabulary_def dict_get_def fill_def)
qed

lemma strings_comparable: "(\<forall>v\<in>set s. kind_of v = Text) \<Longrightarrow> comparable (unique s)"
  by (simp add: sortable_iff)

text \<open>
  The values of the step are fail-open: for either lookup table, every frame that has the
  column and whose resulting categories \<^verbatim>\<open>sorted\<close> can compare gives a frame in which a key
  of the table is replaced by its canonical value and any other value is kept as it is.
\<close>

lemma standardise_category_values:
  assumes "m = category_map_abc \<or> m = category_map_xyz"
    and "standardise_category m df = Inr df'"
    and "i < length (rows df)"
  shows "(rows df' ! i) ''item_category'' =
           (case m ((rows df ! i) ''item_category'') of
              Some c \<Rightarrow> c | None \<Rightarrow> (rows df ! i) ''item_category'')"
  using assms(2,3) normalize_vocabulary_cases [OF assms(1)]
  by (simp add: standardise_category_Inr category_row_def)

text \<open>
  C6. The claim is that the vocabulary step never raises on a value that is absent from
  the lookup table. The script does not keep it: in the sample extract the category of
  the second row is blank, the map and \<^verbatim>\<open>fillna\<close> pass the blank through next to the
  string of the first row, and the log statement of the step (line 96) then raises
  TypeError, because \<^verbatim>\<open>sorted\<close> cannot compare the blank with the string.
\<close>

theorem vocabulary_step_raises:
  "getitem sample_blank ''item_category'' = Inr [Str ''salad'', NaN] \<and>
   fillna (series_map category_map_abc [Str ''salad'', NaN]) [Str ''salad'', NaN] =
     [Str ''Salads'', NaN] \<and>
   standardise_category category_map_abc sample_blank = Inl TypeError"
  by (simp add: getitem_def sample_blank_def row_of_def fillna_def series_map_def dict_get_def
      fill_def isna_def category_map_abc_def standardise_category_def setitem_def
      insert_column_def log_categories_def py_sorted_def unique_def comparable_def kind_of_def)

lemma dict_get_letters:
  "dict_get yes_no_letters v =
     (if v = Str ''Y'' then Str ''Yes'' else if v = Str ''N'' then Str ''No'' else NaN)"
  by (simp add: dict_get_def yes_no_letters_def)

lemma dict_get_bits:
  "dict_get yes_no_bits v =
     (if v = Num 1 then Str ''Yes'' else if v = Num 0 then Str ''No'' else NaN)"
  by (simp add: dict_get_def yes_no_bits_def)

lemma restrict_kept:
  "c \<in> set (columns df) \<Longrightarrow> c \<noteq> ''item_product_cost'' \<Longrightarrow> restrict (kept df) r c = r c"
  by (simp add: restrict_def set_kept)

lemma labels_abc_row:
  "abc_row P r ''coupon_used'' = dict_get yes_no_letters (r ''coupon_y_n'')"
  "abc_row P r ''alcohol_purchased'' = dict_get yes_no_bits (r ''order_alcohol_purchased'')"
  "abc_row P r ''has_children'' = dict_get yes_no_bits (r ''customer_with_children'')"
  by (simp_all add: abc_row_def row_defs)

lemma labels_xyz_row:
  "xyz_row P r ''coupon_used'' = dict_get yes_no_letters (r ''coupon_y_n'')"
  "xyz_row P r ''alcohol_purchased'' = dict_get yes_no_bits (r ''order_alcohol_purchased'')"
  "xyz_row P r ''has_children'' = dict_get yes_no_bits (r ''customer_with_children'')"
  by (simp_all add: xyz_row_def row_defs)

text \<open>
  C10. The coded flags are fail-closed. In the cleaned frame of either chain, row by row,
  \<open>coupon_used\<close> is Yes for the code \<open>'Y'\<close>, No for \<open>'N'\<close> and missing for every other
  raw value of \<open>coupon_y_n\<close>; \<open>alcohol_purchased\<close> and \<open>has_children\<close> are Yes for 1, No for
  0 and missing for every other raw value of their source columns.
\<close>

theorem coded_flags_fail_closed:
  assumes "clean_abc P df = Inr (df', n) \<or> clean_xyz P df = Inr (df', n)"
    and "i < length (rows df)"
  shows "length (rows df') = length (rows df) \<and>
    (rows df' ! i) ''coupon_used'' =
      (if (rows df ! i) ''coupon_y_n'' = Str ''Y'' then Str ''Yes''
       else if (rows df ! i) ''coupon_y_n'' = Str ''N'' then Str ''No'' else NaN) \<and>
    (rows df' ! i) ''alcohol_purchased'' =
      (if (rows df ! i) ''order_alcohol_purchased'' = Num 1 then Str ''Yes''
       else if (rows df ! i) ''order_alcohol_purchased'' = Num 0 then Str ''No'' else NaN) \<and>
    (rows df' ! i) ''has_children'' =
      (if (rows df ! i) ''customer_with_children'' = Num 1 then Str ''Yes''
       else if (rows df ! i) ''customer_with_children'' = Num 0 then Str ''No'' else NaN)"
  using assms(1)
proof
  assume "clean_abc P df = Inr (df', n)"
  then have "rows df' = map (abc_row P) (rows df)"
    using clean_abc_rows(1) by fastforce
  with assms(2) show ?thesis
    by (simp add: labels_abc_row dict_get_letters dict_get_bits)
next
  assume a: "clean_xyz P df = Inr (df', n)"
  then have r: "rows df' = map (xyz_row P) (map (restrict (kept df)) (rows df))"
    using clean_xyz_rows(1) by fastforce
  from a have "set xyz_needs \<subseteq> set (columns df)"
    by (rule clean_xyz_rows(5))
  then have k: "restrict (kept df) (rows df ! i) ''coupon_y_n'' = (rows df ! i) ''coupon_y_n''"
    "restrict (kept df) (rows df ! i) ''order_alcohol_purchased'' = (rows df ! i) ''order_alcohol_purchased''"
    "restrict (kept df) (rows df ! i) ''customer_with_children'' = (rows df ! i) ''customer_with_children''"
    by (simp_all add: xyz_needs_def restrict_kept)
  from r assms(2) show ?thesis
    by (simp add: labels_xyz_row dict_get_letters dict_get_bits k)
qed

lemma valid_sample_parsers: "valid_times sample_parsers"
  by (simp add: valid_times_def sample_parsers_def)

lemma sample_categories:
  "normalize_vocabulary category_map_abc (abc_row1 ''item_category'') = Str ''Salads''"
  "normalize_vocabulary category_map_abc (abc_row2 ''item_category'') = Str ''Soup''"
  "normalize_vocabulary category_map_xyz (xyz_row1 ''item_category'') = Str ''Beverages''"
  by (simp_all add: normalize_vocabulary_def dict_get_def fill_def isna_def category_map_abc_def
      category_map_xyz_def abc_row1_def abc_row2_def xyz_row1_def row_of_def)

lemma sample_abc_ready:
  "set abc_needs \<subseteq> set (columns sample_abc)"
  "\<forall>r\<in>set (rows sample_abc). integral (number_of sample_parsers (r ''order_number''))"
  by (simp_all add: abc_needs_def sample_abc_def raw_cols_def abc_row1_def abc_row2_def row_of_def
      integral_def number_of_def sample_parsers_def)

lemma sample_abc_sortable:
  "comparable (unique (map (\<lambda>r. normalize_vocabulary category_map_abc (r ''item_category''))
     (rows sample_abc)))"
  by (simp add: sample_abc_def strings_comparable sample_categories kind_of_def)

lemma sample_xyz_ready: "set xyz_needs \<subseteq> set (columns sample_xyz)"
  by (simp add: xyz_needs_def sample_xyz_def raw_cols_def)

lemma sample_xyz_sortable:
  "comparable (unique (map (\<lambda>r. normalize_vocabulary category_map_xyz (r ''item_category''))
     (rows sample_xyz)))"
  by (simp add: sample_xyz_def strings_comparable sample_categories kind_of_def)

lemmas clean_sample_abc =
  clean_abc_total [OF valid_sample_parsers sample_abc_ready sample_abc_sortable]

lemmas clean_sample_xyz =
  clean_xyz_total [OF valid_sample_parsers sample_xyz_ready sample_xyz_sortable]

theorem coded_flags_fail_closed_witness:
  "\<exists>df' n. clean_abc sample_parsers sample_abc = Inr (df', n) \<and> length (rows df') = 2 \<and>
      (rows df' ! 0) ''coupon_used'' = Str ''Yes'' \<and>
      (rows df' ! 0) ''alcohol_purchased'' = Str ''Yes'' \<and>
      (rows df' ! 0) ''has_children'' = NaN"
proof -
  from clean_sample_abc obtain df' n where c: "clean_abc sample_parsers sample_abc = Inr (df', n)"
    by blast
  have i: "0 < length (rows sample_abc)" by (simp add: sample_abc_def)
  from c have "clean_abc sample_parsers sample_abc = Inr (df', n)
      \<or> clean_xyz sample_parsers sample_abc = Inr (df', n)" by simp
  from coded_flags_fail_closed [OF this i]
  have "length (rows df') = 2 \<and>
      (rows df' ! 0) ''coupon_used'' = Str ''Yes'' \<and>
      (rows df' ! 0) ''alcohol_purchased'' = Str ''Yes'' \<and>
      (rows df' ! 0) ''has_children'' = NaN"
    by (simp add: sample_abc_def abc_row1_def row_of_def)
  with c show ?thesis by blast
qed

section \<open>Idempotence\<close>

lemma flag_row_idem: "flag_row (flag_row r) = flag_row r"
  by (simp add: flag_row_def)

lemma calendar_row_idem: "calendar_row (calendar_row r) = calendar_row r"
  by (simp add: calendar_row_def)

lemma insert_column_idem: "insert_column (insert_column cols c) c = insert_column cols c"
  by simp

lemma add_time_of_day_idem:
  assumes "add_time_of_day df = Inr df1"
  shows "add_time_of_day df1 = Inr df1"
proof -
  from assms have c: "''order_purchase_time'' \<in> set (columns df)"
    and t: "\<forall>r\<in>set (rows df). \<exists>w. time_of_day (r ''order_purchase_time'') = Inr w"
    and e: "df1 = \<lparr>columns = insert_column (columns df) ''time_of_day'', rows = map flag_row (rows df)\<rparr>"
    by (simp_all add: add_time_of_day_Inr)
  have f: "\<And>r. flag_row r ''order_purchase_time'' = r ''order_purchase_time''"
    by (simp add: flag_row_def)
  show ?thesis
    unfolding add_time_of_day_Inr using c t by (simp add: e f flag_row_idem)
qed

lemma add_calendar_idem:
  assumes "add_calendar df = Inr df2"
  shows "add_calendar df2 = Inr df2"
proof -
  from assms have c: "''order_purchase_date'' \<in> set (columns df)"
    and t: "\<forall>r\<in>set (rows df). is_datetime (r ''order_purchase_date'')"
    and e: "df2 = \<lparr>columns = insert_column (insert_column (insert_column (insert_column (columns df)
                ''order_month'') ''order_month_name'') ''order_year'') ''season'',
            rows = map calendar_row (rows df)\<rparr>"
    by (simp_all add: add_calendar_Inr)
  have f: "\<And>r. calendar_row r ''order_purchase_date'' = r ''order_purchase_date''"
    by (simp add: calendar_row_def)
  show ?thesis
    unfolding add_calendar_Inr using c t by (simp add: e f calendar_row_idem)
qed

lemma canonical_abc: "fillna (series_map category_map_abc canonical) canonical = canonical"
  by (simp add: fillna_def series_map_def canonical_def dict_get_def category_map_abc_def fill_def
      isna_def)

lemma canonical_xyz: "fillna (series_map category_map_xyz canonical) canonical = canonical"
  by (simp add: fillna_def series_map_def canonical_def dict_get_def category_map_xyz_def fill_def
      isna_def)

text \<open>
  C7. Normalization is idempotent. Applying the vocabulary map of ABC or of XYZ to the
  seven canonical values returns the same values, and deriving the auxiliary columns
  (the flag \<open>time_of_day\<close>; month, month name, year and season) a second time from the
  frame they were derived into gives that frame again.
\<close>

theorem normalization_idempotent:
  "fillna (series_map category_map_abc canonical) canonical = canonical \<and>
   fillna (series_map category_map_xyz canonical) canonical = canonical \<and>
   (add_time_of_day df = Inr df1 \<longrightarrow> add_time_of_day df1 = Inr df1) \<and>
   (add_calendar df = Inr df2 \<longrightarrow> add_calendar df2 = Inr df2)"
  using canonical_abc canonical_xyz add_time_of_day_idem add_calendar_idem by blast

theorem normalization_idempotent_witness:
  "\<exists>df1 df2. add_time_of_day sample_derived = Inr df1 \<and> add_time_of_day df1 = Inr df1 \<and>
      add_calendar sample_derived = Inr df2 \<and> add_calendar df2 = Inr df2"
proof -
  have "\<exists>df1. add_time_of_day sample_derived = Inr df1"
    by (simp add: add_time_of_day_Inr sample_derived_def row_of_def time_of_day_def notna_def
        isna_def split_first_def py_int_def strip_def py_isspace_def digit_of_def)
  then obtain df1 where a: "add_time_of_day sample_derived = Inr df1" by blast
  have "\<exists>df2. add_calendar sample_derived = Inr df2"
    by (simp add: add_calendar_Inr sample_derived_def row_of_def is_datetime_def)
  then obtain df2 where b: "add_calendar sample_derived = Inr df2" by blast
  from normalization_idempotent [of sample_derived df1 df2] a b
  show ?thesis by blast
qed

section \<open>The dimension tables\<close>

lemma keep_first_distinct:
  "distinct (map key (keep_first key seen rs)) \<and>
   set (map key (keep_first key seen rs)) \<inter> set seen = {}"
proof (induction rs arbitrary: seen)
  case Nil
  show ?case by simp
next
  case (Cons r rs)
  show ?case
  proof (cases "key r \<in> set seen")
    case True
    with Cons.IH [of seen] show ?thesis by simp
  next
    case False
    with Cons.IH [of "key r # seen"] show ?thesis by auto
  qed
qed

lemma distinct_map_finer:
  assumes "distinct (map (\<lambda>x. h (g x)) xs)"
  shows "distinct (map g xs)"
  using assms by (auto simp: distinct_map inj_on_def)

lemma drop_duplicates_Inr:
  "drop_duplicates df ks = Inr df' \<longleftrightarrow>
     set ks \<subseteq> set (columns df) \<and>
     df' = \<lparr>columns = columns df, rows = keep_first (key_of ks) [] (rows df)\<rparr>"
  by (auto simp: drop_duplicates_def missing_Nil)

lemma drop_duplicates_distinct:
  assumes "drop_duplicates df ks = Inr df'"
  shows "distinct (map (key_of ks) (rows df'))"
  using assms keep_first_distinct [of "key_of ks" "[]" "rows df"]
  by (simp add: drop_duplicates_Inr)

text \<open>
  C8. The frames loaded into the dimension tables have unique keys: no two rows of
  \<open>restaurants\<close> share a \<open>restaurant_id\<close>, no two rows of \<open>customers\<close> share a
  \<open>customer_id\<close>, and no two rows of \<open>products\<close> share the pair of \<open>item_number\<close> and
  \<open>chain\<close>, whatever the merged frame they are derived from.
\<close>

theorem dimension_keys_unique:
  "(restaurants df = Inr R \<longrightarrow> distinct (map (\<lambda>r. r ''restaurant_id'') (rows R))) \<and>
   (customers df = Inr C \<longrightarrow> distinct (map (\<lambda>r. r ''customer_id'') (rows C))) \<and>
   (products df = Inr I \<longrightarrow> distinct (map (\<lambda>r. (r ''item_number'', r ''chain'')) (rows I)))"
proof (intro conjI impI)
  assume "restaurants df = Inr R"
  then obtain d u where u: "drop_duplicates d [''restaurant_id''] = Inr u"
    and R: "R = rename_column u ''restaurant_zip_code'' ''restaurant_zip''"
    by (auto simp: restaurants_def bindE_Inr)
  from drop_duplicates_distinct [OF u]
  have "distinct (map (\<lambda>r. [r ''restaurant_id'']) (rows u))"
    by (simp add: key_of_def [abs_def])
  then have "distinct (map (\<lambda>r. r ''restaurant_id'') (rows u))"
    by (rule distinct_map_finer)
  moreover have "map (\<lambda>r. r ''restaurant_id'') (rows R) = map (\<lambda>r. r ''restaurant_id'') (rows u)"
    by (simp add: R rename_column_def o_def)
  ultimately show "distinct (map (\<lambda>r. r ''restaurant_id'') (rows R))" by simp
next
  assume "customers df = Inr C"
  then obtain d where u: "drop_duplicates d [''customer_id''] = Inr C"
    by (auto simp: customers_def bindE_Inr)
  from drop_duplicates_distinct [OF u]
  have "distinct (map (\<lambda>r. [r ''customer_id'']) (rows C))"
    by (simp add: key_of_def [abs_def])
  then show "distinct (map (\<lambda>r. r ''customer_id'') (rows C))"
    by (rule distinct_map_finer)
next
  assume "products df = Inr I"
  then obtain d where u: "drop_duplicates d [''item_number'', ''chain''] = Inr I"
    by (auto simp: products_def bindE_Inr)
  from drop_duplicates_distinct [OF u]
  have "distinct (map (\<lambda>r. (\<lambda>(a, b). [a, b]) (r ''item_number'', r ''chain'')) (rows I))"
    by (simp add: key_of_def [abs_def])
  then show "distinct (map (\<lambda>r. (r ''item_number'', r ''chain'')) (rows I))"
    by (rule distinct_map_finer)
qed

theorem dimension_keys_unique_witness:
  "\<exists>R C I. restaurants sample_merged = Inr R \<and> customers sample_merged = Inr C \<and>
      products sample_merged = Inr I \<and>
      distinct (map (\<lambda>r. r ''restaurant_id'') (rows R)) \<and>
      distinct (map (\<lambda>r. r ''customer_id'') (rows C)) \<and>
      distinct (map (\<lambda>r. (r ''item_number'', r ''chain'')) (rows I))"
proof -
  have "\<exists>R. restaurants sample_merged = Inr R"
    by (simp add: restaurants_def select_def missing_def drop_duplicates_def sample_merged_def)
  then obtain R where r: "restaurants sample_merged = Inr R" by blast
  have "\<exists>C. customers sample_merged = Inr C"
    by (simp add: customers_def select_def missing_def drop_duplicates_def sample_merged_def)
  then obtain C where c: "customers sample_merged = Inr C" by blast
  have "\<exists>I. products sample_merged = Inr I"
    by (simp add: products_def select_def missing_def drop_duplicates_def sample_merged_def)
  then obtain I where i: "products sample_merged = Inr I" by blast
  from dimension_keys_unique [of sample_merged R C I] r c i
  show ?thesis by blast
qed

section \<open>The merge\<close>

lemma select_Inr:
  "select df cols = Inr df' \<longleftrightarrow>
     set cols \<subseteq> set (columns df) \<and> df' = \<lparr>columns = cols, rows = map (restrict cols) (rows df)\<rparr>"
  by (auto simp: select_def missing_Nil)

lemma restrict_idem: "restrict cols (restrict cols r) = restrict cols r"
  by (simp add: restrict_def fun_eq_iff)

lemma unify_Inr:
  "unify A B = Inr out \<longleftrightarrow>
     set shared_cols \<subseteq> set (columns A) \<and> set shared_cols \<subseteq> set (columns B) \<and>
     out = \<lparr>abc_clean = \<lparr>columns = shared_cols, rows = map (restrict shared_cols) (rows A)\<rparr>,
            xyz_clean = \<lparr>columns = shared_cols, rows = map (restrict shared_cols) (rows B)\<rparr>,
            merged = \<lparr>columns = shared_cols,
                      rows = map (restrict shared_cols) (rows A) @
                             map (restrict shared_cols) (rows B)\<rparr>\<rparr>"
  by (auto simp: unify_def bindE_Inr select_Inr concat_frames_def restrict_idem o_def)

text \<open>
  C4. The merge conserves rows. When the two normalized frames are unified, the merged
  frame has as many rows as the two frames together, its rows are the rows of the ABC
  frame followed by the rows of the XYZ frame, each in its own order, and each row is the
  source row on the shared columns.
\<close>

theorem merge_conserves_rows:
  assumes "unify A B = Inr out"
  shows "len (merged out) = len A + len B \<and>
         rows (merged out) = rows (abc_clean out) @ rows (xyz_clean out) \<and>
         rows (abc_clean out) = map (restrict shared_cols) (rows A) \<and>
         rows (xyz_clean out) = map (restrict shared_cols) (rows B)"
  using assms by (simp add: unify_Inr len_def)

theorem merge_conserves_rows_witness:
  "\<exists>out. unify sample_a sample_b = Inr out \<and> len (merged out) = 3 \<and>
      map (\<lambda>r. r ''order_number'') (rows (merged out)) = [Num 1, Num 2, Num 3]"
proof -
  have "\<exists>out. unify sample_a sample_b = Inr out"
    by (auto simp: unify_Inr sample_a_def sample_b_def)
  then obtain out where u: "unify sample_a sample_b = Inr out" by blast
  from merge_conserves_rows [OF u]
  have "len (merged out) = 3"
    and "map (\<lambda>r. r ''order_number'') (rows (merged out)) = [Num 1, Num 2, Num 3]"
    by (simp_all add: len_def sample_a_def sample_b_def restrict_def shared_cols_def row_of_def)
  with u show ?thesis by (intro exI [of _ out]) simp
qed

lemma select_Inl:
  "\<not> set cols \<subseteq> set (columns df) \<Longrightarrow> select df cols = Inl (KeyError (missing df cols))"
  by (simp add: select_def missing_Nil)

text \<open>
  C9. Unification fails loudly. When both frames have every shared column, the three
  outputs have exactly the shared columns, in their order. When a shared column is
  absent from a frame, there is no output: the run ends in a KeyError that lists the
  absent shared columns of the first frame that lacks one.
\<close>

theorem unify_fails_loudly:
  "(set shared_cols \<subseteq> set (columns A) \<and> set shared_cols \<subseteq> set (columns B) \<longrightarrow>
      (\<exists>out. unify A B = Inr out \<and> columns (merged out) = shared_cols \<and>
         columns (abc_clean out) = shared_cols \<and> columns (xyz_clean out) = shared_cols)) \<and>
   (\<not> (set shared_cols \<subseteq> set (columns A) \<and> set shared_cols \<subseteq> set (columns B)) \<longrightarrow>
      (\<exists>cs. unify A B = Inl (KeyError cs) \<and> cs \<noteq> [] \<and> set cs \<subseteq> set shared_cols \<and>
         (cs = missing A shared_cols \<or> cs = missing B shared_cols)))"
proof (intro conjI impI)
  assume "set shared_cols \<subseteq> set (columns A) \<and> set shared_cols \<subseteq> set (columns B)"
  then show "\<exists>out. unify A B = Inr out \<and> columns (merged out) = shared_cols \<and>
         columns (abc_clean out) = shared_cols \<and> columns (xyz_clean out) = shared_cols"
    by (simp add: unify_Inr)
next
  assume n: "\<not> (set shared_cols \<subseteq> set (columns A) \<and> set shared_cols \<subseteq> set (columns B))"
  have s: "\<And>df. set (missing df shared_cols) \<subseteq> set shared_cols"
    by (auto simp: missing_def)
  show "\<exists>cs. unify A B = Inl (KeyError cs) \<and> cs \<noteq> [] \<and> set cs \<subseteq> set shared_cols \<and>
         (cs = missing A shared_cols \<or> cs = missing B shared_cols)"
  proof (cases "set shared_cols \<subseteq> set (columns A)")
    case False
    then have "unify A B = Inl (KeyError (missing A shared_cols))"
      by (simp add: unify_def select_Inl)
    moreover from False have "missing A shared_cols \<noteq> []"
      by (simp add: missing_Nil)
    ultimately show ?thesis using s by blast
  next
    case True
    with n have b: "\<not> set shared_cols \<subseteq> set (columns B)" by simp
    from True obtain a where "select A shared_cols = Inr a"
      by (simp add: select_Inr)
    with b have "unify A B = Inl (KeyError (missing B shared_cols))"
      by (simp add: unify_def select_Inl)
    moreover from b have "missing B shared_cols \<noteq> []"
      by (simp add: missing_Nil)
    ultimately show ?thesis using s by blast
  qed
qed

theorem unify_fails_loudly_witness:
  "(\<exists>out. unify sample_a sample_b = Inr out \<and> columns (merged out) = shared_cols) \<and>
   unify sample_a sample_c = Inl (KeyError [''order_total_cost''])"
proof -
  have ab: "set shared_cols \<subseteq> set (columns sample_a) \<and> set shared_cols \<subseteq> set (columns sample_b)"
    by (auto simp: sample_a_def sample_b_def)
  have a: "missing sample_a shared_cols = []"
    by (simp add: missing_Nil sample_a_def)
  have c: "missing sample_c shared_cols = [''order_total_cost'']"
    by (simp add: missing_def sample_c_def shared_cols_def)
  then have ac: "\<not> (set shared_cols \<subseteq> set (columns sample_a) \<and> set shared_cols \<subseteq> set (columns sample_c))"
    using missing_Nil [of sample_c shared_cols] by simp
  from unify_fails_loudly [of sample_a sample_b] ab
  have 1: "\<exists>out. unify sample_a sample_b = Inr out \<and> columns (merged out) = shared_cols"
    by blast
  from unify_fails_loudly [of sample_a sample_c] ac
  obtain cs where "unify sample_a sample_c = Inl (KeyError cs)" and "cs \<noteq> []"
    and "cs = missing sample_a shared_cols \<or> cs = missing sample_c shared_cols"
    by blast
  with a c have "unify sample_a sample_c = Inl (KeyError [''order_total_cost''])"
    by auto
  with 1 show ?thesis by blast
qed

section \<open>The cost column\<close>

text \<open>
  Step 4a removes the column from every frame that has it and reads none of its cells;
  the cells of the other columns stay as they are.
\<close>

lemma xyz_drop_cost_blind:
  assumes "''item_product_cost'' \<in> set (columns xyz)"
  shows "\<exists>xyz'. xyz_drop_cost xyz = Inr xyz' \<and>
           columns xyz' = filter (\<lambda>c. c \<noteq> ''item_product_cost'') (columns xyz) \<and>
           rows xyz' = map (restrict (columns xyz')) (rows xyz)"
  using assms by (simp add: xyz_drop_cost_Inr kept_def)

text \<open>
  C5. The claim is that a column is dropped only after a check that all its cells are
  missing. The script's comment and log line say that \<open>item_product_cost\<close> is 100% null,
  but step 4a makes no such check: the sample extract of XYZ holds a cost that is not
  missing, and the step drops the column all the same.
\<close>

theorem drop_cost_drops_data:
  "getitem sample_xyz ''item_product_cost'' = Inr [Num 3] \<and> notna (Num 3) \<and>
   result_columns (xyz_drop_cost sample_xyz) = Inr raw_cols"
  by (simp add: getitem_def sample_xyz_def xyz_row1_def row_of_def notna_def isna_def
      result_columns_def xyz_drop_cost_def drop_columns_def missing_def raw_cols_def Let_def)

section \<open>Dates\<close>

lemma year_1970_iff:
  "year_of (timestamp_of P v) = Num 1970 \<longleftrightarrow> parsed_year P v = Some 1970"
  by (cases "to_datetime P v") (auto simp: year_of_def timestamp_of_def parsed_year_def)

lemma year_before_iff:
  "year_before 2015 (year_of (timestamp_of P v)) \<longleftrightarrow> parsed_before P 2015 v"
  by (cases "to_datetime P v")
    (auto simp: year_of_def timestamp_of_def parsed_year_def parsed_before_def year_before_def)

lemma abc_row_date: "abc_row P r ''order_purchase_date'' = abc_date P (r ''order_purchase_date'')"
  by (simp add: abc_row_def row_defs)

lemma xyz_row_date: "xyz_row P r ''order_purchase_date'' = timestamp_of P (r ''order_purchase_date'')"
  by (simp add: xyz_row_def row_defs)

lemma abc_date_1970: "parsed_year P v = Some 1970 \<Longrightarrow> abc_date P v = NaT"
  by (simp add: abc_date_def year_1970_iff)

text \<open>
  C1, as the script has it. In the cleaning of ABC every row whose raw date parses to
  the year 1970 gets the date \<open>NaT\<close>, and the number \<open>n_bad\<close> that goes to the log is
  the number of those rows. In the cleaning of XYZ every row keeps the date its raw
  value parses to (a date of 1970 too), and the number \<open>bad_xyz\<close> that goes to the log
  is the number of rows whose date parses to a year before 2015.
\<close>

theorem repair_dates_by_source:
  "(clean_abc P abc = Inr (abc', n_bad) \<longrightarrow>
      length (rows abc') = length (rows abc) \<and>
      (\<forall>i<length (rows abc).
         parsed_year P ((rows abc ! i) ''order_purchase_date'') = Some 1970 \<longrightarrow>
         (rows abc' ! i) ''order_purchase_date'' = NaT) \<and>
      n_bad = length (filter (\<lambda>r. parsed_year P (r ''order_purchase_date'') = Some 1970)
                        (rows abc))) \<and>
   (clean_xyz P xyz = Inr (xyz', bad_xyz) \<longrightarrow>
      length (rows xyz') = length (rows xyz) \<and>
      (\<forall>i<length (rows xyz).
         (rows xyz' ! i) ''order_purchase_date'' =
           timestamp_of P ((rows xyz ! i) ''order_purchase_date'')) \<and>
      bad_xyz = length (filter (\<lambda>r. parsed_before P 2015 (r ''order_purchase_date''))
                          (rows xyz)))"
proof (intro conjI impI)
  assume a: "clean_abc P abc = Inr (abc', n_bad)"
  from clean_abc_rows(1) [OF a] have r: "rows abc' = map (abc_row P) (rows abc)" by simp
  from r show "length (rows abc') = length (rows abc)" by simp
  from r show "\<forall>i<length (rows abc).
         parsed_year P ((rows abc ! i) ''order_purchase_date'') = Some 1970 \<longrightarrow>
         (rows abc' ! i) ''order_purchase_date'' = NaT"
    by (simp add: abc_row_date abc_date_1970)
  from clean_abc_rows(2) [OF a]
  show "n_bad = length (filter (\<lambda>r. parsed_year P (r ''order_purchase_date'') = Some 1970)
                        (rows abc))"
    by (simp add: year_1970_iff)
next
  assume a: "clean_xyz P xyz = Inr (xyz', bad_xyz)"
  from clean_xyz_rows(1) [OF a]
  have r: "rows xyz' = map (xyz_row P) (map (restrict (kept xyz)) (rows xyz))" by simp
  from clean_xyz_rows(4) [OF a] have d: "''order_purchase_date'' \<in> set (columns xyz)" .
  from r show "length (rows xyz') = length (rows xyz)" by simp
  from r d show "\<forall>i<length (rows xyz).
         (rows xyz' ! i) ''order_purchase_date'' =
           timestamp_of P ((rows xyz ! i) ''order_purchase_date'')"
    by (simp add: xyz_row_date restrict_kept_date)
  from clean_xyz_rows(2) [OF a]
  show "bad_xyz = length (filter (\<lambda>r. parsed_before P 2015 (r ''order_purchase_date''))
                          (rows xyz))"
    by (simp add: xyz_count_def year_before_iff)
qed

lemma sample_dates:
  "parsed_year sample_parsers (abc_row1 ''order_purchase_date'') = Some 1970"
  "parsed_year sample_parsers (abc_row2 ''order_purchase_date'') = Some 2019"
  "parsed_year sample_parsers (xyz_row1 ''order_purchase_date'') = Some 1970"
  "timestamp_of sample_parsers (xyz_row1 ''order_purchase_date'') = Timestamp 1970 1 1"
  by (simp_all add: parsed_year_def timestamp_of_def sample_parsers_def abc_row1_def abc_row2_def
      xyz_row1_def row_of_def)

theorem repair_dates_by_source_witness:
  "\<exists>abc' n xyz' k.
      clean_abc sample_parsers sample_abc = Inr (abc', n) \<and>
      clean_xyz sample_parsers sample_xyz = Inr (xyz', k) \<and>
      (rows abc' ! 0) ''order_purchase_date'' = NaT \<and> n = 1 \<and>
      (rows xyz' ! 0) ''order_purchase_date'' = Timestamp 1970 1 1 \<and> k = 1"
proof -
  from clean_sample_abc obtain abc' n where a: "clean_abc sample_parsers sample_abc = Inr (abc', n)"
    by blast
  from clean_sample_xyz obtain xyz' k where x: "clean_xyz sample_parsers sample_xyz = Inr (xyz', k)"
    by blast
  note t = repair_dates_by_source [of sample_parsers sample_abc abc' n sample_xyz xyz' k]
  from t a have "(rows abc' ! 0) ''order_purchase_date'' = NaT" and "n = 1"
    by (simp_all add: sample_abc_def sample_dates)
  moreover from t x have "(rows xyz' ! 0) ''order_purchase_date'' = Timestamp 1970 1 1" and "k = 1"
    by (simp_all add: sample_xyz_def sample_dates parsed_before_def)
  ultimately show ?thesis using a x by blast
qed

text \<open>
  The claim as the specification states it fails for XYZ: the raw date of the sample row
  parses to 1970, and the cleaned frame holds that date, not a missing value.
\<close>

theorem repair_dates_xyz_counterexample:
  "parsed_year sample_parsers (xyz_row1 ''order_purchase_date'') = Some 1970 \<and>
   rows sample_xyz = [xyz_row1] \<and>
   result_column ''order_purchase_date'' (clean_xyz sample_parsers sample_xyz) =
     Inr [Timestamp 1970 1 1] \<and>
   notna (Timestamp 1970 1 1)"
proof -
  have d: "''order_purchase_date'' \<in> set (columns sample_xyz)"
    by (simp add: sample_xyz_def raw_cols_def)
  then have "''order_purchase_date'' \<in> set (derived_columns (kept sample_xyz))"
    by (simp add: derived_columns_def set_kept)
  then have "result_column ''order_purchase_date'' (clean_xyz sample_parsers sample_xyz) =
     Inr [xyz_row sample_parsers (restrict (kept sample_xyz) xyz_row1) ''order_purchase_date'']"
    by (simp add: clean_sample_xyz result_column_def getitem_def) (simp add: sample_xyz_def)
  with d show ?thesis
    by (simp add: xyz_row_date restrict_kept_date sample_dates notna_def isna_def)
      (simp add: sample_xyz_def)
qed

section \<open>The flag of the time of day\<close>

lemma hour_of_strftime: "h < 24 \<Longrightarrow> hour_of (Str (strftime_HM h m)) = Some (int h)"
  by (simp add: hour_of_def split_first_strftime py_int_pad2)

lemma flag_of_time:
  assumes "valid_times P"
  shows "(projr (time_of_day (hhmm_of P v)) = Str ''AM'' \<longleftrightarrow> morning (hhmm_of P v)) \<and>
         (projr (time_of_day (hhmm_of P v)) = Str ''AM'' \<or>
          projr (time_of_day (hhmm_of P v)) = Str ''PM'') \<and>
         (isna (hhmm_of P v) \<longrightarrow> projr (time_of_day (hhmm_of P v)) = Str ''PM'')"
proof (cases "to_time P v")
  case None
  then have "hhmm_of P v = NaN" by (simp add: hhmm_of_def)
  then show ?thesis
    by (simp add: time_of_day_def notna_def isna_def morning_def hour_of_def)
next
  case (Some t)
  obtain h m s where t: "t = (h, m, s)" by (cases t)
  with Some assms have h: "h < 24" by (auto simp: valid_times_def)
  from Some t have e: "hhmm_of P v = Str (strftime_HM h m)" by (simp add: hhmm_of_def)
  show ?thesis
    unfolding e using h by (simp add: time_of_day_strftime morning_def hour_of_strftime isna_def)
qed

lemma abc_row_time:
  "abc_row P r ''order_purchase_time'' = hhmm_of P (r ''order_purchase_time'')"
  "abc_row P r ''time_of_day'' = projr (time_of_day (hhmm_of P (r ''order_purchase_time'')))"
  by (simp_all add: abc_row_def row_defs)

lemma xyz_row_time:
  "xyz_row P r ''order_purchase_time'' = hhmm_of P (r ''order_purchase_time'')"
  "xyz_row P r ''time_of_day'' = projr (time_of_day (hhmm_of P (r ''order_purchase_time'')))"
  by (simp_all add: xyz_row_def row_defs)

text \<open>
  C2, as the script has it. In every row of the cleaned frame of either chain the flag
  \<open>time_of_day\<close> is AM exactly when the time is known and its hour is in [0,12), and it
  is PM in every other case; in particular a missing time gives the flag PM.
\<close>

theorem time_of_day_flag:
  assumes "valid_times P"
    and "clean_abc P df = Inr (df', n) \<or> clean_xyz P df = Inr (df', n)"
    and "r \<in> set (rows df')"
  shows "(r ''time_of_day'' = Str ''AM'' \<longleftrightarrow> morning (r ''order_purchase_time'')) \<and>
         (r ''time_of_day'' = Str ''AM'' \<or> r ''time_of_day'' = Str ''PM'') \<and>
         (isna (r ''order_purchase_time'') \<longrightarrow> r ''time_of_day'' = Str ''PM'')"
  using assms(2)
proof
  assume a: "clean_abc P df = Inr (df', n)"
  from clean_abc_rows(1) [OF a] assms(3) obtain r0 where "r = abc_row P r0" by auto
  then show ?thesis
    using flag_of_time [OF assms(1), of "r0 ''order_purchase_time''"]
    by (simp only: abc_row_time) blast
next
  assume a: "clean_xyz P df = Inr (df', n)"
  from clean_xyz_rows(1) [OF a] assms(3) obtain r0 where "r = xyz_row P r0" by auto
  then show ?thesis
    using flag_of_time [OF assms(1), of "r0 ''order_purchase_time''"]
    by (simp only: xyz_row_time) blast
qed

lemma sample_times:
  "hhmm_of sample_parsers (abc_row1 ''order_purchase_time'') = Str ''09:05''"
  "hhmm_of sample_parsers (abc_row2 ''order_purchase_time'') = NaN"
  by (simp_all add: hhmm_of_def sample_parsers_def abc_row1_def abc_row2_def row_of_def
      strftime_HM_def pad2_def digit_char_def)

lemma sample_flags:
  "projr (time_of_day (hhmm_of sample_parsers (abc_row1 ''order_purchase_time''))) = Str ''AM''"
  "projr (time_of_day (hhmm_of sample_parsers (abc_row2 ''order_purchase_time''))) = Str ''PM''"
  by (simp_all add: time_of_day_hhmm [OF valid_sample_parsers])
    (simp_all add: sample_parsers_def abc_row1_def abc_row2_def row_of_def)

theorem time_of_day_flag_witness:
  "\<exists>df' n r. clean_abc sample_parsers sample_abc = Inr (df', n) \<and> r \<in> set (rows df') \<and>
      isna (r ''order_purchase_time'') \<and> r ''time_of_day'' = Str ''PM''"
proof -
  from clean_sample_abc obtain df' n where
    a: "clean_abc sample_parsers sample_abc = Inr (df', n)"
    and d: "df' = \<lparr>columns = derived_columns (columns sample_abc),
                   rows = map (abc_row sample_parsers) (rows sample_abc)\<rparr>"
    by blast
  let ?r = "abc_row sample_parsers abc_row2"
  from d have m: "?r \<in> set (rows df')" by (simp add: sample_abc_def)
  have i: "isna (?r ''order_purchase_time'')"
    by (simp add: abc_row_time sample_times isna_def)
  from a have "clean_abc sample_parsers sample_abc = Inr (df', n)
      \<or> clean_xyz sample_parsers sample_abc = Inr (df', n)" by simp
  from time_of_day_flag [OF valid_sample_parsers this m] i
  have "?r ''time_of_day'' = Str ''PM''" by blast
  with a m i show ?thesis by blast
qed

text \<open>
  The claim as the specification states it fails: the time of the second sample row of
  ABC does not parse, the cleaned time is missing, and the flag is PM, not missing.
\<close>

theorem time_of_day_flag_counterexample:
  "time_of_day NaN = Inr (Str ''PM'') \<and>
   result_column ''order_purchase_time'' (clean_abc sample_parsers sample_abc) =
     Inr [Str ''09:05'', NaN] \<and>
   result_column ''time_of_day'' (clean_abc sample_parsers sample_abc) =
     Inr [Str ''AM'', Str ''PM''] \<and>
   isna NaN \<and> notna (Str ''PM'')"
proof -
  have c: "''order_purchase_time'' \<in> set (derived_columns (columns sample_abc))"
    "''time_of_day'' \<in> set (derived_columns (columns sample_abc))"
    by (simp_all add: derived_columns_def sample_abc_def raw_cols_def)
  have r: "rows sample_abc = [abc_row1, abc_row2]" by (simp add: sample_abc_def)
  have f: "abc_row sample_parsers abc_row1 ''time_of_day'' = Str ''AM''"
    "abc_row sample_parsers abc_row2 ''time_of_day'' = Str ''PM''"
    by (simp_all only: abc_row_time(2) sample_flags)
  have t: "abc_row sample_parsers abc_row1 ''order_purchase_time'' = Str ''09:05''"
    "abc_row sample_parsers abc_row2 ''order_purchase_time'' = NaN"
    by (simp_all only: abc_row_time(1) sample_times)
  have n: "time_of_day NaN = Inr (Str ''PM'')"
    by (simp add: time_of_day_def notna_def isna_def)
  show ?thesis
    by (simp add: clean_sample_abc result_column_def getitem_def c r f t n notna_def isna_def)
qed

section \<open>The calendar columns of the merged frame\<close>

lemma month_of_na: "isna v \<Longrightarrow> month_of v = NaN"
  by (auto simp: isna_def month_of_def)

lemma calendar_of_na:
  assumes "isna (r ''order_purchase_date'')"
  shows "isna (labels_row (calendar_row r) ''order_month'') \<and>
         isna (labels_row (calendar_row r) ''order_month_name'') \<and>
         isna (labels_row (calendar_row r) ''order_year'') \<and>
         isna (labels_row (calendar_row r) ''season'')"
  using assms
  by (auto simp: labels_row_def calendar_row_def isna_def month_of_def month_name_of_def
      year_of_def get_season_def)

lemma calendar_keeps_date:
  "labels_row (calendar_row r) ''order_purchase_date'' = r ''order_purchase_date''"
  by (simp add: labels_row_def calendar_row_def)

lemma consistent_calendar: "consistent (labels_row (calendar_row r))"
  unfolding consistent_def calendar_keeps_date using calendar_of_na by blast

lemma consistent_restrict: "consistent r \<Longrightarrow> consistent (restrict shared_cols r)"
  by (simp add: consistent_def restrict_def shared_cols_def)

lemma pipeline_steps:
  assumes "pipeline P abc_raw xyz_raw = Inr (out, n_bad, bad_xyz)"
  obtains abc' xyz' where
    "clean_abc P (setitem_scalar abc_raw ''chain'' (Str ''ABC'')) = Inr (abc', n_bad)"
    "clean_xyz P (setitem_scalar xyz_raw ''chain'' (Str ''XYZ'')) = Inr (xyz', bad_xyz)"
    "unify abc' xyz' = Inr out" "log_categories (merged out) = Inr ()"
  using assms by (auto simp: pipeline_def Let_def bindE_Inr)

text \<open>
  C3. Sentinel consistency. In every row of the merged frame that the script produces,
  a missing \<open>order_purchase_date\<close> comes with a missing \<open>order_month\<close>,
  \<open>order_month_name\<close>, \<open>order_year\<close> and \<open>season\<close>.
\<close>

theorem sentinel_consistency:
  assumes "pipeline P abc_raw xyz_raw = Inr (out, n_bad, bad_xyz)"
    and "r \<in> set (rows (merged out))"
    and "isna (r ''order_purchase_date'')"
  shows "isna (r ''order_month'') \<and> isna (r ''order_month_name'') \<and>
         isna (r ''order_year'') \<and> isna (r ''season'')"
proof -
  from assms(1) obtain abc' xyz' where
    a: "clean_abc P (setitem_scalar abc_raw ''chain'' (Str ''ABC'')) = Inr (abc', n_bad)" and
    x: "clean_xyz P (setitem_scalar xyz_raw ''chain'' (Str ''XYZ'')) = Inr (xyz', bad_xyz)" and
    u: "unify abc' xyz' = Inr out"
    by (rule pipeline_steps)
  from u have m: "rows (merged out) =
      map (restrict shared_cols) (rows abc') @ map (restrict shared_cols) (rows xyz')"
    by (simp add: unify_Inr)
  from clean_abc_rows(1) [OF a] have "\<forall>q\<in>set (rows abc'). consistent q"
    by (auto simp: abc_row_def consistent_calendar)
  moreover from clean_xyz_rows(1) [OF x] have "\<forall>q\<in>set (rows xyz'). consistent q"
    by (auto simp: xyz_row_def consistent_calendar)
  ultimately have "consistent r"
    using assms(2) m by (auto simp: consistent_restrict)
  with assms(3) show ?thesis by (simp add: consistent_def)
qed

lemma tagged_abc:
  "columns (setitem_scalar sample_abc ''chain'' (Str ''ABC'')) = raw_cols @ [''chain'']"
  "rows (setitem_scalar sample_abc ''chain'' (Str ''ABC'')) =
     [abc_row1(''chain'' := Str ''ABC''), abc_row2(''chain'' := Str ''ABC'')]"
  by (simp_all add: setitem_scalar_def sample_abc_def insert_column_def raw_cols_def)

lemma tagged_xyz:
  "columns (setitem_scalar sample_xyz ''chain'' (Str ''XYZ'')) =
     raw_cols @ [''item_product_cost'', ''chain'']"
  "rows (setitem_scalar sample_xyz ''chain'' (Str ''XYZ'')) = [xyz_row1(''chain'' := Str ''XYZ'')]"
  by (simp_all add: setitem_scalar_def sample_xyz_def insert_column_def raw_cols_def)

lemma shared_cols_tagged:
  "set shared_cols \<subseteq> set (derived_columns (raw_cols @ [''chain'']))"
  by (simp add: shared_cols_def derived_columns_def raw_cols_def insert_column_def)

lemma category_of_row:
  "restrict shared_cols r ''item_category'' = r ''item_category''"
  "abc_row P r ''item_category'' = normalize_vocabulary category_map_abc (r ''item_category'')"
  "xyz_row P r ''item_category'' = normalize_vocabulary category_map_xyz (r ''item_category'')"
  by (simp_all add: restrict_def shared_cols_def abc_row_def xyz_row_def row_defs)

lemma sample_pipeline:
  "\<exists>out n k. pipeline sample_parsers sample_abc sample_xyz = Inr (out, n, k) \<and>
      restrict shared_cols (abc_row sample_parsers (abc_row1(''chain'' := Str ''ABC'')))
        \<in> set (rows (merged out))"
proof -
  let ?A = "setitem_scalar sample_abc ''chain'' (Str ''ABC'')"
  let ?X = "setitem_scalar sample_xyz ''chain'' (Str ''XYZ'')"
  have na: "set abc_needs \<subseteq> set (columns ?A)"
    by (simp add: tagged_abc abc_needs_def raw_cols_def)
  have ia: "\<forall>r\<in>set (rows ?A). integral (number_of sample_parsers (r ''order_number''))"
    by (simp add: tagged_abc abc_row1_def abc_row2_def row_of_def integral_def number_of_def
        sample_parsers_def)
  have nx: "set xyz_needs \<subseteq> set (columns ?X)"
    by (simp add: tagged_xyz xyz_needs_def raw_cols_def)
  have sa: "comparable (unique (map (\<lambda>r. normalize_vocabulary category_map_abc (r ''item_category''))
      (rows ?A)))"
    by (simp add: tagged_abc(2) strings_comparable sample_categories kind_of_def)
  have sx: "comparable (unique (map (\<lambda>r. normalize_vocabulary category_map_xyz (r ''item_category''))
      (rows ?X)))"
    by (simp add: tagged_xyz(2) strings_comparable sample_categories kind_of_def)
  note ca = clean_abc_total [OF valid_sample_parsers na ia sa]
  note cx = clean_xyz_total [OF valid_sample_parsers nx sx]
  have k: "kept ?X = raw_cols @ [''chain'']"
    by (simp add: kept_def tagged_xyz raw_cols_def)
  have rk: "restrict (raw_cols @ [''chain'']) (xyz_row1(''chain'' := Str ''XYZ'')) ''item_category''
      = xyz_row1 ''item_category''"
    by (simp add: restrict_def raw_cols_def)
  let ?a = "\<lparr>columns = derived_columns (columns ?A), rows = map (abc_row sample_parsers) (rows ?A)\<rparr>"
  let ?x = "\<lparr>columns = derived_columns (kept ?X),
             rows = map (xyz_row sample_parsers) (map (restrict (kept ?X)) (rows ?X))\<rparr>"
  have "\<exists>out. unify ?a ?x = Inr out"
    using shared_cols_tagged by (simp add: unify_Inr k tagged_abc(1))
  then obtain out where u: "unify ?a ?x = Inr out" by blast
  then have m: "restrict shared_cols (abc_row sample_parsers (abc_row1(''chain'' := Str ''ABC'')))
        \<in> set (rows (merged out))"
    by (simp add: unify_Inr tagged_abc(2))
  from u have "map (\<lambda>r. r ''item_category'') (rows (merged out)) =
      [Str ''Salads'', Str ''Soup'', Str ''Beverages'']"
    by (simp add: unify_Inr tagged_abc(2) tagged_xyz(2) k category_of_row rk sample_categories)
  moreover from u have "columns (merged out) = shared_cols"
    by (simp add: unify_Inr)
  ultimately have lg: "log_categories (merged out) = Inr ()"
    by (simp add: log_categories_Inr strings_comparable kind_of_def) (simp add: shared_cols_def)
  have "pipeline sample_parsers sample_abc sample_xyz =
      Inr (out, length (filter (\<lambda>r. year_of (timestamp_of sample_parsers (r ''order_purchase_date'')) = Num 1970) (rows ?A)),
           xyz_count sample_parsers ?X)"
    unfolding pipeline_def Let_def by (simp only: ca cx u lg bindE_Inr_simp prod.case)
  with m show ?thesis by blast
qed

theorem sentinel_consistency_witness:
  "\<exists>out n k r. pipeline sample_parsers sample_abc sample_xyz = Inr (out, n, k) \<and>
      r \<in> set (rows (merged out)) \<and> isna (r ''order_purchase_date'') \<and>
      isna (r ''order_month'') \<and> isna (r ''order_month_name'') \<and>
      isna (r ''order_year'') \<and> isna (r ''season'')"
proof -
  let ?r = "restrict shared_cols (abc_row sample_parsers (abc_row1(''chain'' := Str ''ABC'')))"
  from sample_pipeline obtain out n k where
    p: "pipeline sample_parsers sample_abc sample_xyz = Inr (out, n, k)"
    and m: "?r \<in> set (rows (merged out))"
    by blast
  have "parsed_year sample_parsers ((abc_row1(''chain'' := Str ''ABC'')) ''order_purchase_date'')
      = Some 1970"
    by (simp add: sample_dates)
  then have "?r ''order_purchase_date'' = NaT"
    by (simp add: restrict_def shared_cols_def abc_row_date abc_date_1970)
  then have i: "isna (?r ''order_purchase_date'')"
    by (simp add: isna_def)
  from sentinel_consistency [OF p m i] p m i show ?thesis by blast
qed

end
